theory Spec2Isabelle
  imports Complex_Main "HOL-Library.Sublist"
begin

section \<open>JavaScript strings\<close>

text \<open>
  A JavaScript string is modelled as a \<^typ>\<open>string\<close> of ASCII text; the few characters
  of the sources outside ASCII (the rupee sign and the bullet of the canned paragraphs)
  are written as their UTF-8 bytes. \<open>toLowerCase\<close> and \<open>toUpperCase\<close> act on the
  letters A..Z and a..z and leave every other character as it is; white space is what
  \<open>\s\<close> and \<open>trim\<close> recognise inside ASCII: tab, line feed, vertical tab, form feed,
  carriage return and space.
\<close>

definition lower_char :: "char \<Rightarrow> char" where
  "lower_char c =
     (let n = (of_char c :: nat) in if 65 \<le> n \<and> n \<le> 90 then char_of (n + 32) else c)"

definition upper_char :: "char \<Rightarrow> char" where
  "upper_char c =
     (let n = (of_char c :: nat) in if 97 \<le> n \<and> n \<le> 122 then char_of (n - 32) else c)"

definition toLowerCase :: "string \<Rightarrow> string" where
  "toLowerCase s = map lower_char s"

definition toUpperCase :: "string \<Rightarrow> string" where
  "toUpperCase s = map upper_char s"

text \<open>\<open>s.includes(t)\<close>: \<open>t\<close> occurs in \<open>s\<close> as a contiguous run.\<close>

definition js_includes :: "string \<Rightarrow> string \<Rightarrow> bool" where
  "js_includes s t = sublist t s"

definition is_space :: "char \<Rightarrow> bool" where
  "is_space c = (let n = (of_char c :: nat) in (9 \<le> n \<and> n \<le> 13) \<or> n = 32)"

definition trim :: "string \<Rightarrow> string" where
  "trim s = rev (dropWhile is_space (rev (dropWhile is_space s)))"

text \<open>
  \<open>s.split(/\s+/)\<close>: the pieces between maximal runs of white space. A run at the start
  or at the end of \<open>s\<close> leaves an empty first or last piece, and the empty string splits
  into one empty piece.
\<close>

fun split_ws :: "string \<Rightarrow> string list" where
  "split_ws [] = [[]]"
| "split_ws (c # cs) =
     (if is_space c then
        (case cs of
           [] \<Rightarrow> [[], []]
         | d # _ \<Rightarrow> if is_space d then split_ws cs else [] # split_ws cs)
      else
        (case split_ws cs of
           [] \<Rightarrow> [[c]]
         | w # ws \<Rightarrow> (c # w) # ws))"

definition is_upper :: "char \<Rightarrow> bool" where
  "is_upper c = (let n = (of_char c :: nat) in 65 \<le> n \<and> n \<le> 90)"

definition is_letter :: "char \<Rightarrow> bool" where
  "is_letter c =
     (let n = (of_char c :: nat) in (65 \<le> n \<and> n \<le> 90) \<or> (97 \<le> n \<and> n \<le> 122))"

section \<open>JSON values and the HTTP layer\<close>

text \<open>
  What the backend sends is a JSON document. An object is the list of its members, and a
  property is read with \<^const>\<open>map_of\<close>. \<open>truthy\<close> is JavaScript's conversion to a
  boolean; \<open>js_prop v k\<close> is \<open>v.k\<close> for a value that is not \<open>null\<close>, with \<open>None\<close>
  for \<open>undefined\<close>; \<open>index0 v\<close> is \<open>v[0]\<close>; \<open>gt_zero\<close> is the test \<open>x > 0\<close>
  on a property that may be undefined (a number is compared, \<open>true\<close> counts as 1, and
  the conversion of strings, arrays and objects to a number is not modelled: they
  count as not greater than 0).
\<close>

datatype json =
    JNull
  | JBool bool
  | JNum real
  | JStr string
  | JArr "json list"
  | JObj "(string \<times> json) list"

fun truthy :: "json \<Rightarrow> bool" where
  "truthy JNull = False"
| "truthy (JBool b) = b"
| "truthy (JNum x) = (x \<noteq> 0)"
| "truthy (JStr s) = (s \<noteq> [])"
| "truthy (JArr xs) = True"
| "truthy (JObj kvs) = True"

fun js_prop :: "json \<Rightarrow> string \<Rightarrow> json option" where
  "js_prop (JObj kvs) k = map_of kvs k"
| "js_prop (JArr xs) k = (if k = ''length'' then Some (JNum (real (length xs))) else None)"
| "js_prop (JStr s) k = (if k = ''length'' then Some (JNum (real (length s))) else None)"
| "js_prop v k = None"

fun index0 :: "json \<Rightarrow> json option" where
  "index0 (JArr xs) = (case xs of [] \<Rightarrow> None | x # _ \<Rightarrow> Some x)"
| "index0 (JStr s) = (case s of [] \<Rightarrow> None | c # _ \<Rightarrow> Some (JStr [c]))"
| "index0 (JObj kvs) = map_of kvs ''0''"
| "index0 v = None"

fun gt_zero :: "json option \<Rightarrow> bool" where
  "gt_zero (Some (JNum x)) = (0 < x)"
| "gt_zero (Some (JBool b)) = b"
| "gt_zero v = False"

text \<open>
  The errors a promise can reject with: the error of a failed axios call, an \<open>Error\<close>
  thrown by the client itself with its message, and the \<open>TypeError\<close> of reading a
  property of \<open>null\<close> or \<open>undefined\<close>.
\<close>

datatype js_error = AxiosError | Error string | TypeError

datatype http_method = GET | POST

record request =
  meth :: http_method
  url :: string
  body :: "json option"

text \<open>
  The world outside the client. \<open>http w k r\<close> is what the backend does with request
  \<open>r\<close> when it is the \<open>k\<close>-th request of the session: \<open>None\<close> when the call fails
  (axios rejects), \<open>Some d\<close> when it resolves with a response whose \<open>data\<close> is \<open>d\<close>.
  \<open>random w k\<close> is the \<open>k\<close>-th value \<open>Math.random()\<close> returns. The renderings of a
  number as text (\<open>toFixed\<close>, and the conversion inside a template literal) are
  parameters too, and so is the clock: \<open>today\<close> is the current date as a day number,
  \<open>now_iso\<close> the text of \<open>new Date().toISOString()\<close>.
\<close>

record world =
  base_url :: string
  http :: "nat \<Rightarrow> request \<Rightarrow> json option"
  random :: "nat \<Rightarrow> real"
  toFixed :: "nat \<Rightarrow> real \<Rightarrow> string"
  number_text :: "real \<Rightarrow> string"
  today :: int
  now_iso :: string

text \<open>The effects of a run: the requests sent, in order, and how many random numbers were drawn.\<close>

record session =
  requests :: "request list"
  drawn :: nat

definition axios :: "world \<Rightarrow> session \<Rightarrow> request \<Rightarrow> (js_error + json) \<times> session" where
  "axios w s r =
     ((case http w (length (requests s)) r of None \<Rightarrow> Inl AxiosError | Some d \<Rightarrow> Inr d),
      s\<lparr>requests := requests s @ [r]\<rparr>)"

definition math_random :: "world \<Rightarrow> session \<Rightarrow> real \<times> session" where
  "math_random w s = (random w (drawn s), s\<lparr>drawn := Suc (drawn s)\<rparr>)"

section \<open>Funds as data\<close>

text \<open>
  The interface \<open>Fund\<close>. The two string unions of the interface (\<open>type\<close> and
  \<open>riskLevel\<close>) are kept as strings, since the list comes from the backend as it is;
  the optional fields are options.
\<close>

record fund =
  name :: string
  ftype :: string
  nav :: real
  aum :: real
  oneYearReturn :: real
  threeYearReturn :: real
  category :: string
  riskLevel :: string
  schemeCode :: "string option"
  amcName :: "string option"
  isin :: "string option"
  topHoldings :: "string list option"

text \<open>
  A fund as the JSON object that travels between backend, client and component: the eight
  members every fund has, then the optional ones that are present.
\<close>

definition fund_json :: "fund \<Rightarrow> json" where
  "fund_json f =
     JObj ([(''name'', JStr (name f)), (''type'', JStr (ftype f)), (''nav'', JNum (nav f)),
            (''aum'', JNum (aum f)), (''oneYearReturn'', JNum (oneYearReturn f)),
            (''threeYearReturn'', JNum (threeYearReturn f)),
            (''category'', JStr (category f)), (''riskLevel'', JStr (riskLevel f))]
           @ (case schemeCode f of None \<Rightarrow> [] | Some x \<Rightarrow> [(''schemeCode'', JStr x)])
           @ (case amcName f of None \<Rightarrow> [] | Some x \<Rightarrow> [(''amcName'', JStr x)])
           @ (case isin f of None \<Rightarrow> [] | Some x \<Rightarrow> [(''isin'', JStr x)])
           @ (case topHoldings f of None \<Rightarrow> []
              | Some xs \<Rightarrow> [(''topHoldings'', JArr (map JStr xs))]))"

text \<open>The two funds written out in \<open>getAllFunds\<close> and again in \<open>fetchFunds\<close>.\<close>

definition hdfc_top_100 :: fund where
  "hdfc_top_100 =
     \<lparr>name = ''HDFC Top 100 Fund'', ftype = ''Mutual Fund'', nav = 850.25, aum = 21500,
      oneYearReturn = 15.8, threeYearReturn = 12.5, category = ''Large Cap'',
      riskLevel = ''Moderate'', schemeCode = None, amcName = None, isin = None,
      topHoldings = None\<rparr>"

definition nifty_bees :: fund where
  "nifty_bees =
     \<lparr>name = ''Nifty BeES'', ftype = ''ETF'', nav = 220.15, aum = 12800,
      oneYearReturn = 18.2, threeYearReturn = 14.7, category = ''Index Fund'',
      riskLevel = ''Moderate'', schemeCode = None, amcName = None, isin = None,
      topHoldings = None\<rparr>"

section \<open>The REST client (services/api.ts)\<close>

text \<open>
  Every method returns the value its promise resolves with (\<open>Inr\<close>) or the error it
  rejects with (\<open>Inl\<close>), and the session after it. An argument with a default value is
  an option. The response object of axios is modelled by its member \<open>data\<close> alone.
\<close>

definition chat_query ::
  "world \<Rightarrow> session \<Rightarrow> string \<Rightarrow> string option \<Rightarrow> (js_error + json) \<times> session" where
  "chat_query w s query sessionId =
     axios w s \<lparr>meth = POST, url = base_url w @ ''/chat/query'',
       body = Some (JObj [(''query'', JStr query),
         (''user_id'', JStr (case sessionId of None \<Rightarrow> ''default'' | Some i \<Rightarrow> i))])\<rparr>"

definition news_getRecent ::
  "world \<Rightarrow> session \<Rightarrow> real option \<Rightarrow> (js_error + json) \<times> session" where
  "news_getRecent w s limit =
     axios w s \<lparr>meth = GET,
       url = base_url w @ ''/news/recent?limit=''
         @ number_text w (case limit of None \<Rightarrow> 20 | Some n \<Rightarrow> n),
       body = None\<rparr>"

definition news_getByEntity ::
  "world \<Rightarrow> session \<Rightarrow> string \<Rightarrow> real option \<Rightarrow> (js_error + json) \<times> session" where
  "news_getByEntity w s entityName days =
     axios w s \<lparr>meth = GET,
       url = base_url w @ ''/news/entity/'' @ entityName @ ''?days=''
         @ number_text w (case days of None \<Rightarrow> 30 | Some n \<Rightarrow> n),
       body = None\<rparr>"

definition news_search :: "world \<Rightarrow> session \<Rightarrow> json \<Rightarrow> (js_error + json) \<times> session" where
  "news_search w s query =
     axios w s \<lparr>meth = POST, url = base_url w @ ''/news/search'', body = Some query\<rparr>"

definition news_refresh :: "world \<Rightarrow> session \<Rightarrow> (js_error + json) \<times> session" where
  "news_refresh w s =
     axios w s \<lparr>meth = POST, url = base_url w @ ''/news/refresh'', body = None\<rparr>"

text \<open>
  \<open>getStockInfo\<close>: the direct lookup; when it fails, the search; when the search fails
  or finds nothing (the \<open>Error\<close> thrown inside the inner \<open>try\<close>), the mock data.
\<close>

definition search_fallback ::
  "world \<Rightarrow> session \<Rightarrow> string \<Rightarrow> (js_error + json) \<times> session" where
  "search_fallback w s symbol =
     (case axios w s \<lparr>meth = POST, url = base_url w @ ''/financial-data/search'',
              body = Some (JObj [(''query'', JStr symbol), (''entity_type'', JStr ''stock'')])\<rparr> of
        (Inl e, s') \<Rightarrow> (Inl e, s')
      | (Inr d, s') \<Rightarrow>
          if truthy d \<and> gt_zero (js_prop d ''length'')
          then (Inr (JObj (case index0 d of None \<Rightarrow> [] | Some x \<Rightarrow> [(''data'', x)])), s')
          else (Inl (Error ''No stock data found''), s'))"

definition mockData :: "world \<Rightarrow> session \<Rightarrow> string \<Rightarrow> json \<times> session" where
  "mockData w s symbol =
     (let (r1, s1) = math_random w s;
          (r2, s2) = math_random w s1;
          (r3, s3) = math_random w s2;
          (r4, s4) = math_random w s3;
          (r5, s5) = math_random w s4
      in (JObj [(''symbol'', JStr (toUpperCase symbol)),
                (''name'', JStr (toUpperCase symbol)),
                (''price'', JNum (r1 * 5000 + 500)),
                (''change'', JStr (toFixed w 2 (r2 * 100 - 50))),
                (''changePercent'', JStr (toFixed w 2 (r3 * 10 - 5))),
                (''volume'', JNum (of_int \<lfloor>r4 * 10000000\<rfloor> + 100000)),
                (''marketCap'', JNum (of_int \<lfloor>r5 * 10000000000\<rfloor> + 1000000000)),
                (''sector'', JStr ''Unknown'')], s5))"

definition getStockInfo ::
  "world \<Rightarrow> session \<Rightarrow> string \<Rightarrow> (js_error + json) \<times> session" where
  "getStockInfo w s symbol =
     (case axios w s \<lparr>meth = GET, url = base_url w @ ''/stocks/'' @ symbol, body = None\<rparr> of
        (Inr d, s1) \<Rightarrow> (Inr (JObj [(''data'', d)]), s1)
      | (Inl e, s1) \<Rightarrow>
          (case search_fallback w s1 symbol of
             (Inr v, s2) \<Rightarrow> (Inr v, s2)
           | (Inl e2, s2) \<Rightarrow>
               (let (m, s3) = mockData w s2 symbol in (Inr (JObj [(''data'', m)]), s3))))"

definition getFundInfo ::
  "world \<Rightarrow> session \<Rightarrow> string \<Rightarrow> (js_error + json) \<times> session" where
  "getFundInfo w s schemeName =
     axios w s \<lparr>meth = GET, url = base_url w @ ''/funds/'' @ schemeName, body = None\<rparr>"

text \<open>
  \<open>getAllFunds\<close>: the body of the \<open>try\<close> returns the payload or throws; the
  \<open>catch\<close> turns every error into the fallback list.
\<close>

definition fallback_funds :: json where
  "fallback_funds =
     JObj [(''status'', JStr ''success''),
           (''data'', JArr [fund_json hdfc_top_100, fund_json nifty_bees])]"

definition getAllFunds_try :: "world \<Rightarrow> session \<Rightarrow> (js_error + json) \<times> session" where
  "getAllFunds_try w s =
     (case axios w s \<lparr>meth = GET, url = base_url w @ ''/funds'', body = None\<rparr> of
        (Inl e, s') \<Rightarrow> (Inl e, s')
      | (Inr d, s') \<Rightarrow>
          if truthy d \<and> js_prop d ''status'' = Some (JStr ''success'')
          then (Inr d, s')
          else (Inl (Error ''Invalid response format''), s'))"

definition getAllFunds :: "world \<Rightarrow> session \<Rightarrow> (js_error + json) \<times> session" where
  "getAllFunds w s =
     (case getAllFunds_try w s of
        (Inr d, s') \<Rightarrow> (Inr d, s')
      | (Inl e, s') \<Rightarrow> (Inr fallback_funds, s'))"

definition getFundHoldings ::
  "world \<Rightarrow> session \<Rightarrow> string \<Rightarrow> (js_error + json) \<times> session" where
  "getFundHoldings w s schemeName =
     axios w s \<lparr>meth = GET, url = base_url w @ ''/funds/'' @ schemeName @ ''/holdings'',
       body = None\<rparr>"

definition getETFInfo ::
  "world \<Rightarrow> session \<Rightarrow> string \<Rightarrow> (js_error + json) \<times> session" where
  "getETFInfo w s symbol =
     axios w s \<lparr>meth = GET, url = base_url w @ ''/etfs/'' @ symbol, body = None\<rparr>"

definition searchFinancialData ::
  "world \<Rightarrow> session \<Rightarrow> json \<Rightarrow> (js_error + json) \<times> session" where
  "searchFinancialData w s query =
     axios w s \<lparr>meth = POST, url = base_url w @ ''/financial-data/search'',
       body = Some query\<rparr>"

text \<open>The object \<open>api\<close>: one constructor for each of its eleven methods.\<close>

datatype api_call =
    ChatQuery string "string option"
  | NewsGetRecent "real option"
  | NewsGetByEntity string "real option"
  | NewsSearch json
  | NewsRefresh
  | GetStockInfo string
  | GetFundInfo string
  | GetAllFunds
  | GetFundHoldings string
  | GetETFInfo string
  | SearchFinancialData json

fun api :: "world \<Rightarrow> session \<Rightarrow> api_call \<Rightarrow> (js_error + json) \<times> session" where
  "api w s (ChatQuery q sid) = chat_query w s q sid"
| "api w s (NewsGetRecent limit) = news_getRecent w s limit"
| "api w s (NewsGetByEntity n days) = news_getByEntity w s n days"
| "api w s (NewsSearch q) = news_search w s q"
| "api w s NewsRefresh = news_refresh w s"
| "api w s (GetStockInfo symb) = getStockInfo w s symb"
| "api w s (GetFundInfo n) = getFundInfo w s n"
| "api w s GetAllFunds = getAllFunds w s"
| "api w s (GetFundHoldings n) = getFundHoldings w s n"
| "api w s (GetETFInfo symb) = getETFInfo w s symb"
| "api w s (SearchFinancialData q) = searchFinancialData w s q"

text \<open>A session in which nothing has happened yet.\<close>

definition fresh :: session where
  "fresh = \<lparr>requests = [], drawn = 0\<rparr>"

text \<open>The backend is down: every request of the session fails.\<close>

definition backend_down :: "world \<Rightarrow> bool" where
  "backend_down w = (\<forall>k r. http w k r = None)"

text \<open>The methods with a \<open>catch\<close> that substitutes local data.\<close>

fun substitutes :: "api_call \<Rightarrow> bool" where
  "substitutes (GetStockInfo symb) = True"
| "substitutes GetAllFunds = True"
| "substitutes c = False"

section \<open>The fund browser (Funds.tsx): the list shown\<close>

text \<open>The state \<open>filter\<close> of the component: \<open>"all" | "mf" | "etf"\<close>.\<close>

datatype fund_filter = All | Mf | Etf

definition matchesSearch :: "string \<Rightarrow> fund \<Rightarrow> bool" where
  "matchesSearch searchTerm f = js_includes (toLowerCase (name f)) (toLowerCase searchTerm)"

definition matchesFilter :: "fund_filter \<Rightarrow> fund \<Rightarrow> bool" where
  "matchesFilter flt f =
     (flt = All \<or> (flt = Mf \<and> ftype f = ''Mutual Fund'') \<or> (flt = Etf \<and> ftype f = ''ETF''))"

definition filteredFunds :: "fund list \<Rightarrow> string \<Rightarrow> fund_filter \<Rightarrow> fund list" where
  "filteredFunds funds searchTerm flt =
     filter (\<lambda>f. matchesSearch searchTerm f \<and> matchesFilter flt f) funds"

text \<open>
  What the claim calls a match, written without the code's helpers: the lower-cased
  search term occurs somewhere inside the lower-cased name, and the type is the one the
  filter selects.
\<close>

definition name_contains :: "string \<Rightarrow> fund \<Rightarrow> bool" where
  "name_contains searchTerm f =
     (\<exists>pre suf. toLowerCase (name f) = pre @ toLowerCase searchTerm @ suf)"

fun type_selected :: "fund_filter \<Rightarrow> fund \<Rightarrow> bool" where
  "type_selected All f = True"
| "type_selected Mf f = (ftype f = ''Mutual Fund'')"
| "type_selected Etf f = (ftype f = ''ETF'')"

section \<open>The chat assistant (ChatInterface)\<close>

subsection \<open>Canned paragraphs\<close>

text \<open>The two characters of the paragraphs outside ASCII, as UTF-8 bytes.\<close>

definition rupee :: string where
  "rupee = [CHR 0xE2, CHR 0x82, CHR 0xB9]"

definition bullet :: string where
  "bullet = [CHR 0xE2, CHR 0x80, CHR 0xA2]"

definition ans_asset_quality :: string where
  "ans_asset_quality =
     ''HDFC Bank's asset quality remains robust with gross NPA ratio at 1.34% and net NPA ''
     @ ''ratio at 0.35%.\<newline>''
     @ ''\<newline>''
     @ ''Need more details? Ask about: provision coverage ratio, slippage ratio, or ''
     @ ''restructured assets.''"

definition ans_casa_ratio :: string where
  "ans_casa_ratio =
     ''HDFC Bank's CASA (Current Account Savings Account) ratio stands at 42.5%, ''
     @ ''reflecting strong low-cost deposit base.\<newline>''
     @ ''\<newline>''
     @ ''Need more details? Ask about: deposit growth, cost of funds, or liability ''
     @ ''management.''"

definition ans_merger_synergies :: string where
  "ans_merger_synergies =
     ''HDFC Bank's merger with HDFC Ltd has expanded mortgage lending capabilities with ''
     @ ''projected annual synergies of ''
     @ rupee
     @ ''8,000 crore by year 3.\<newline>''
     @ ''\<newline>''
     @ ''Need more details? Ask about: cross-selling opportunities, integration timeline, or ''
     @ ''operational efficiency.''"

definition ans_market_cap :: string where
  "ans_market_cap =
     ''Market capitalization information for popular stocks:\<newline>''
     @ bullet
     @ '' Apple: $2.75 trillion\<newline>''
     @ bullet
     @ '' Microsoft: $3.09 trillion\<newline>''
     @ bullet
     @ '' Amazon: $1.85 trillion\<newline>''
     @ bullet
     @ '' Reliance Industries: ''
     @ rupee
     @ ''19.45 trillion\<newline>''
     @ bullet
     @ '' HDFC Bank: ''
     @ rupee
     @ ''8.97 trillion\<newline>''
     @ ''\<newline>''
     @ ''Need specific details? Ask about a particular company.''"

definition ans_volume :: string where
  "ans_volume =
     ''Recent trading volume information:\<newline>''
     @ bullet
     @ '' BSE: 3.21 billion shares\<newline>''
     @ bullet
     @ '' Apple: 78.45 million shares\<newline>''
     @ bullet
     @ '' Reliance: 8.45 million shares\<newline>''
     @ bullet
     @ '' HDFC Bank: 6.25 million shares\<newline>''
     @ ''\<newline>''
     @ ''Need more details? Ask about a specific company's liquidity or market activity.''"

definition ans_recent_news :: string where
  "ans_recent_news =
     ''Recent market news highlights:\<newline>''
     @ bullet
     @ '' US Fed commentary on interest rates impacting global markets\<newline>''
     @ bullet
     @ '' Q4 earnings season showing resilience in IT and Banking sectors\<newline>''
     @ bullet
     @ '' FII flows turning positive after recent selling\<newline>''
     @ bullet
     @ '' Global tech rally supporting domestic technology stocks\<newline>''
     @ ''\<newline>''
     @ ''Need specific news? Ask about a particular sector or company.''"

definition ans_apple :: string where
  "ans_apple =
     ''Apple Inc. (AAPL) is currently trading at $175.34, up by 1.24%.\<newline>''
     @ ''\<newline>''
     @ ''Need more details? Ask about: market cap, iPhone sales, or recent performance.''"

definition ans_bse :: string where
  "ans_bse =
     ''BSE Sensex is currently at 73,876.44, up by 0.58%.\<newline>''
     @ ''\<newline>''
     @ ''Need more details? Ask about: trading volume, sector performance, or FII activity.''"

definition ans_swiggy_quarter :: string where
  "ans_swiggy_quarter =
     ''Swiggy reported 45% order growth and 60% revenue growth in the latest quarter.\<newline>''
     @ ''\<newline>''
     @ ''Need more details? Ask about: profitability metrics, Instamart performance, or IPO ''
     @ ''plans.''"

definition ans_jyothy_labs :: string where
  "ans_jyothy_labs =
     ''Jyothy Labs shares are up 8% following a 25% increase in quarterly profit.\<newline>''
     @ ''\<newline>''
     @ ''Need more details? Ask about: segment performance, profit margins, or analyst ''
     @ ''ratings.''"

definition ans_infosys :: string where
  "ans_infosys =
     ''Infosys (INFY) is currently trading with positive momentum. Their digital services ''
     @ ''division accounts for 59% of total revenue.\<newline>''
     @ ''\<newline>''
     @ ''Need more details? Ask about: large deals, margins, or growth guidance.''"

definition ans_market_today :: string where
  "ans_market_today =
     ''Indian markets are positive today, with Nifty 50 up by 0.78%. IT and banking ''
     @ ''sectors are leading the gains.\<newline>''
     @ ''\<newline>''
     @ ''Need more details? Ask about: FII/DII flows, specific sectors, or global market ''
     @ ''impact.''"

definition ans_hdfc :: string where
  "ans_hdfc =
     ''HDFC Bank reported 17% YoY net profit growth with advances up 16.8% and deposits up ''
     @ ''18.5%.\<newline>''
     @ ''\<newline>''
     @ ''Need more details? Ask about: asset quality, CASA ratio, or merger synergies.''"

definition ans_tata_motors :: string where
  "ans_tata_motors =
     ''Tata Motors is showing strong positive momentum with JLR revenue up 32% YoY and ''
     @ ''improved EBIT margins of 8.6%.\<newline>''
     @ ''\<newline>''
     @ ''Need more details? Ask about: EV division, domestic market share, or debt reduction.''"

definition ans_reliance :: string where
  "ans_reliance =
     ''Reliance Industries continues to diversify with Jio's ARPU improving to ''
     @ rupee
     @ ''181.7 and Retail showing 19.5% YoY revenue growth.\<newline>''
     @ ''\<newline>''
     @ ''Need more details? Ask about: O2C segment, new energy investments, or digital ''
     @ ''business.''"

definition ans_zomato_high :: string where
  "ans_zomato_high =
     ''Zomato stock reached its recent high in early February 2024, trading above ''
     @ rupee
     @ ''190 per share.\<newline>''
     @ ''\<newline>''
     @ ''Need more details? Ask about: recent volatility factors, Blinkit performance, or ''
     @ ''analyst targets.''"

definition ans_tcs_price :: string where
  "ans_tcs_price =
     ''TCS is currently trading at ''
     @ rupee
     @ ''3,680.55 per share.\<newline>''
     @ ''\<newline>''
     @ ''Need more details? Ask about: quarterly results, deal pipeline, or margin outlook.''"

definition ans_iphone_sales :: string where
  "ans_iphone_sales =
     ''Apple's iPhone sales reached approximately 224 million units last year, with the ''
     @ ''iPhone 15 series showing strong initial demand.\<newline>''
     @ ''\<newline>''
     @ ''Need more details? Ask about: services revenue, product mix, or regional ''
     @ ''performance.''"

definition ans_apple_performance :: string where
  "ans_apple_performance =
     ''Apple's recent performance shows strength in services revenue (up 16% YoY) and ''
     @ ''expanding margins (46.1% gross margin).\<newline>''
     @ ''\<newline>''
     @ ''Need more details? Ask about: regional growth, supply chain challenges, or AI ''
     @ ''strategy.''"

definition ans_ev_division :: string where
  "ans_ev_division =
     ''Tata Motors has a dominant 70% market share in India's EV passenger vehicle segment ''
     @ ''with the Nexon EV, Tiago EV, and Punch EV lineup.\<newline>''
     @ ''\<newline>''
     @ ''Need more details? Ask about: EV sales growth, battery technology, or charging ''
     @ ''infrastructure.''"

definition ans_domestic_share :: string where
  "ans_domestic_share =
     ''Tata Motors' domestic passenger vehicle market share has expanded to approximately ''
     @ ''14.5%, making it the third-largest automaker in India.\<newline>''
     @ ''\<newline>''
     @ ''Need more details? Ask about: SUV sales, competitive positioning, or new model ''
     @ ''launches.''"

definition ans_debt_reduction :: string where
  "ans_debt_reduction =
     ''Tata Motors has substantially reduced its automotive debt from ''
     @ rupee
     @ ''48,700 crore to ''
     @ rupee
     @ ''39,600 crore over the past year, primarily driven by strong free cash flow from JLR.\<newline>''
     @ ''\<newline>''
     @ ''Need more details? Ask about: debt-to-EBITDA ratio, refinancing activities, or cash ''
     @ ''position.''"

definition ans_o2c :: string where
  "ans_o2c =
     ''Reliance's O2C (Oil-to-Chemicals) segment has shown resilient operating profits ''
     @ ''despite global margin pressures, with refining margins remaining above the ''
     @ ''Singapore benchmark.\<newline>''
     @ ''\<newline>''
     @ ''Need more details? Ask about: petrochemical demand, refining throughput, or margin ''
     @ ''trends.''"

definition ans_new_energy :: string where
  "ans_new_energy =
     ''Reliance has committed ''
     @ rupee
     @ ''75,000 crore to new energy investments, including gigafactories for solar panels, ''
     @ ''energy storage, electrolyzers, and fuel cells, targeting net-zero by 2035.\<newline>''
     @ ''\<newline>''
     @ ''Need more details? Ask about: green hydrogen, solar manufacturing, or energy ''
     @ ''storage solutions.''"

definition ans_digital_business :: string where
  "ans_digital_business =
     ''Reliance's digital business (Jio Platforms) has 456 million subscribers with ''
     @ ''expanding 5G coverage reaching over 85% of India's population.\<newline>''
     @ ''\<newline>''
     @ ''Need more details? Ask about: ARPU trends, data consumption, or digital services ''
     @ ''growth.''"

definition ans_profitability :: string where
  "ans_profitability =
     ''Swiggy reported an improvement in profitability metrics with adjusted EBITDA loss ''
     @ ''reduced to ''
     @ rupee
     @ ''125 crore from ''
     @ rupee
     @ ''425 crore year-on-year. Their contribution margin increased to 7.5%.\<newline>''
     @ ''\<newline>''
     @ ''Need more details? Ask about: unit economics, cash burn, or category-wise margins.''"

definition ans_instamart :: string where
  "ans_instamart =
     ''Swiggy's Instamart (quick commerce) grew 110% YoY, now contributing approximately ''
     @ ''35% to their overall GMV. Average delivery time is 15 minutes across 25+ cities.\<newline>''
     @ ''\<newline>''
     @ ''Need more details? Ask about: basket size, retention rates, or competitive ''
     @ ''landscape.''"

definition ans_ipo_plans :: string where
  "ans_ipo_plans =
     ''Swiggy is preparing for an IPO targeted for mid-2024, with an expected valuation of ''
     @ ''$10-12 billion. They've filed draft papers with SEBI in April 2024.\<newline>''
     @ ''\<newline>''
     @ ''Need more details? Ask about: offer structure, pre-IPO placements, or key investors.''"

definition ans_mrf :: string where
  "ans_mrf =
     ''MRF Limited is currently trading at ''
     @ rupee
     @ ''128,550.75 per share, up by 0.69%.\<newline>''
     @ ''\<newline>''
     @ ''Need more details? Ask about: trading volume, quarterly results, or dealer network.''"

subsection \<open>The conditions of \<open>processSpecificQuery\<close>\<close>

text \<open>
  One condition for each \<open>if\<close> of the function, in the order of the source. The
  argument is \<open>query.toLowerCase()\<close>.
\<close>

definition asks_asset_quality :: "string \<Rightarrow> bool" where
  "asks_asset_quality l = js_includes l ''asset quality''"

definition asks_casa_ratio :: "string \<Rightarrow> bool" where
  "asks_casa_ratio l = js_includes l ''casa ratio''"

definition asks_merger_synergies :: "string \<Rightarrow> bool" where
  "asks_merger_synergies l = js_includes l ''merger synergies''"

definition asks_market_cap :: "string \<Rightarrow> bool" where
  "asks_market_cap l = js_includes l ''market cap''"

definition asks_volume :: "string \<Rightarrow> bool" where
  "asks_volume l = (js_includes l ''volume'' \<or> js_includes l ''trading volume'')"

definition asks_recent_news :: "string \<Rightarrow> bool" where
  "asks_recent_news l = js_includes l ''recent news''"

definition asks_apple :: "string \<Rightarrow> bool" where
  "asks_apple l = (js_includes l ''apple'' \<or> js_includes l ''aapl'')"

definition asks_bse :: "string \<Rightarrow> bool" where
  "asks_bse l =
     (l = ''bse'' \<or> l = ''bse price'' \<or> l = ''bse stock'' \<or> l = ''bse stock price'')"

definition asks_swiggy_quarter :: "string \<Rightarrow> bool" where
  "asks_swiggy_quarter l =
     (js_includes l ''swiggy'' \<and> (js_includes l ''quarter'' \<or> js_includes l ''quarterly''))"

definition asks_jyothy_labs :: "string \<Rightarrow> bool" where
  "asks_jyothy_labs l =
     (js_includes l ''jyothy labs''
      \<and> (js_includes l ''up'' \<or> js_includes l ''increase'' \<or> js_includes l ''rise''))"

definition asks_infosys :: "string \<Rightarrow> bool" where
  "asks_infosys l = (js_includes l ''infosys'' \<or> js_includes l ''infy'')"

definition asks_market_today :: "string \<Rightarrow> bool" where
  "asks_market_today l =
     (js_includes l ''market'' \<and> (js_includes l ''today'' \<or> js_includes l ''current''))"

definition asks_hdfc :: "string \<Rightarrow> bool" where
  "asks_hdfc l = (js_includes l ''hdfc'' \<or> js_includes l ''hdfc bank'')"

definition asks_tata_motors :: "string \<Rightarrow> bool" where
  "asks_tata_motors l = (js_includes l ''tata motors'' \<or> js_includes l ''tatamotors'')"

definition asks_reliance :: "string \<Rightarrow> bool" where
  "asks_reliance l = (js_includes l ''reliance'' \<or> js_includes l ''ril'')"

definition asks_zomato_high :: "string \<Rightarrow> bool" where
  "asks_zomato_high l =
     (js_includes l ''when'' \<and> js_includes l ''zomato'' \<and> js_includes l ''high'')"

definition asks_tcs_price :: "string \<Rightarrow> bool" where
  "asks_tcs_price l = (js_includes l ''tcs'' \<and> js_includes l ''price'')"

definition asks_iphone_sales :: "string \<Rightarrow> bool" where
  "asks_iphone_sales l =
     (js_includes l ''iphone sales'' \<or> js_includes l ''iphone''
      \<or> (js_includes l ''apple'' \<and> js_includes l ''sales''))"

definition asks_apple_performance :: "string \<Rightarrow> bool" where
  "asks_apple_performance l =
     (js_includes l ''recent performance'' \<and> js_includes l ''apple'')"

definition asks_ev_division :: "string \<Rightarrow> bool" where
  "asks_ev_division l =
     (js_includes l ''ev division'' \<or> (js_includes l ''tata'' \<and> js_includes l ''ev''))"

definition asks_domestic_share :: "string \<Rightarrow> bool" where
  "asks_domestic_share l =
     (js_includes l ''domestic market share'' \<and> js_includes l ''tata'')"

definition asks_debt_reduction :: "string \<Rightarrow> bool" where
  "asks_debt_reduction l = (js_includes l ''debt reduction'' \<and> js_includes l ''tata'')"

definition asks_o2c :: "string \<Rightarrow> bool" where
  "asks_o2c l =
     ((js_includes l ''o2c'' \<or> js_includes l ''oil to chemicals'')
      \<and> js_includes l ''reliance'')"

definition asks_new_energy :: "string \<Rightarrow> bool" where
  "asks_new_energy l = (js_includes l ''new energy'' \<and> js_includes l ''reliance'')"

definition asks_digital_business :: "string \<Rightarrow> bool" where
  "asks_digital_business l =
     (js_includes l ''digital business''
      \<or> (js_includes l ''jio'' \<and> \<not> js_includes l ''arpu''))"

definition asks_profitability :: "string \<Rightarrow> bool" where
  "asks_profitability l =
     (js_includes l ''profitability metrics''
      \<or> (js_includes l ''swiggy'' \<and> js_includes l ''profit''))"

definition asks_instamart :: "string \<Rightarrow> bool" where
  "asks_instamart l =
     (js_includes l ''instamart performance''
      \<or> (js_includes l ''swiggy'' \<and> js_includes l ''instamart''))"

definition asks_ipo_plans :: "string \<Rightarrow> bool" where
  "asks_ipo_plans l =
     (js_includes l ''ipo plans'' \<or> (js_includes l ''swiggy'' \<and> js_includes l ''ipo''))"

definition asks_mrf :: "string \<Rightarrow> bool" where
  "asks_mrf l =
     (js_includes l ''mrf'' \<or> js_includes l ''mrf stock'' \<or> js_includes l ''mrf price'')"

subsection \<open>\<open>processSpecificQuery\<close>\<close>

definition processSpecificQuery :: "string \<Rightarrow> string option" where
  "processSpecificQuery query =
     (let l = toLowerCase query in
      if asks_asset_quality l then Some ans_asset_quality
      else if asks_casa_ratio l then Some ans_casa_ratio
      else if asks_merger_synergies l then Some ans_merger_synergies
      else if asks_market_cap l then Some ans_market_cap
      else if asks_volume l then Some ans_volume
      else if asks_recent_news l then Some ans_recent_news
      else if asks_apple l then Some ans_apple
      else if asks_bse l then Some ans_bse
      else if asks_swiggy_quarter l then Some ans_swiggy_quarter
      else if asks_jyothy_labs l then Some ans_jyothy_labs
      else if asks_infosys l then Some ans_infosys
      else if asks_market_today l then Some ans_market_today
      else if asks_hdfc l then Some ans_hdfc
      else if asks_tata_motors l then Some ans_tata_motors
      else if asks_reliance l then Some ans_reliance
      else if asks_zomato_high l then Some ans_zomato_high
      else if asks_tcs_price l then Some ans_tcs_price
      else if asks_iphone_sales l then Some ans_iphone_sales
      else if asks_apple_performance l then Some ans_apple_performance
      else if asks_ev_division l then Some ans_ev_division
      else if asks_domestic_share l then Some ans_domestic_share
      else if asks_debt_reduction l then Some ans_debt_reduction
      else if asks_o2c l then Some ans_o2c
      else if asks_new_energy l then Some ans_new_energy
      else if asks_digital_business l then Some ans_digital_business
      else if asks_profitability l then Some ans_profitability
      else if asks_instamart l then Some ans_instamart
      else if asks_ipo_plans l then Some ans_ipo_plans
      else if asks_mrf l then Some ans_mrf
      else None)"

text \<open>
  The hardcoded patterns of the function with their paragraphs, as a table in the order
  of the source. A pattern is a combination of tests for a substring of the lower-cased
  query; the pattern for BSE compares the whole lower-cased query.
\<close>

definition patterns :: "((string \<Rightarrow> bool) \<times> string) list" where
  "patterns =
     [(asks_asset_quality, ans_asset_quality), (asks_casa_ratio, ans_casa_ratio),
      (asks_merger_synergies, ans_merger_synergies), (asks_market_cap, ans_market_cap),
      (asks_volume, ans_volume), (asks_recent_news, ans_recent_news),
      (asks_apple, ans_apple), (asks_bse, ans_bse),
      (asks_swiggy_quarter, ans_swiggy_quarter), (asks_jyothy_labs, ans_jyothy_labs),
      (asks_infosys, ans_infosys), (asks_market_today, ans_market_today),
      (asks_hdfc, ans_hdfc), (asks_tata_motors, ans_tata_motors),
      (asks_reliance, ans_reliance), (asks_zomato_high, ans_zomato_high),
      (asks_tcs_price, ans_tcs_price), (asks_iphone_sales, ans_iphone_sales),
      (asks_apple_performance, ans_apple_performance), (asks_ev_division, ans_ev_division),
      (asks_domestic_share, ans_domestic_share), (asks_debt_reduction, ans_debt_reduction),
      (asks_o2c, ans_o2c), (asks_new_energy, ans_new_energy),
      (asks_digital_business, ans_digital_business), (asks_profitability, ans_profitability),
      (asks_instamart, ans_instamart), (asks_ipo_plans, ans_ipo_plans),
      (asks_mrf, ans_mrf)]"

definition canned :: "string set" where
  "canned = snd ` set patterns"

subsection \<open>\<open>searchWebForInfo\<close>\<close>

text \<open>
  The answer of \<open>searchWebForInfo\<close> is one of six templates. A value of
  \<open>web_answer\<close> names the template and carries what the code fills in; the rendering of
  the numbers (\<open>toLocaleString\<close>) is not modelled.
  \<^item> \<open>TablePrice n p i\<close>: "\<open>n\<close> is currently trading at \<open>p\<close> per share", price \<open>p\<close>
    from the table \<open>stockPrices\<close>, in rupees when \<open>i\<close> and in dollars otherwise;
  \<^item> \<open>GeneratedPrice n p i\<close>: the same sentence with the price the code computes;
  \<^item> \<open>ProfitabilityNote sw\<close>: the paragraph on profitability metrics, about Swiggy
    when \<open>sw\<close> and about "the company" otherwise;
  \<^item> \<open>MarketShareNote g pct\<close>: the paragraph on market share, "grown" when \<open>g\<close> and
    "maintained" otherwise, with \<open>pct\<close> percent;
  \<^item> \<open>OutlookNote opt pct\<close>: the paragraph on the outlook, "cautiously optimistic"
    when \<open>opt\<close> and "mixed" otherwise, with growth of \<open>pct\<close> percent;
  \<^item> \<open>GeneralNote st pos mk\<close>: the default paragraph, on "the stock" when \<open>st\<close>,
    "positive" when \<open>pos\<close>, "market conditions" when \<open>mk\<close>.
\<close>

datatype web_answer =
    TablePrice string real bool
  | GeneratedPrice string real bool
  | ProfitabilityNote bool
  | MarketShareNote bool int
  | OutlookNote bool int
  | GeneralNote bool bool bool

text \<open>The table \<open>stockPrices\<close>: key, price, \<open>isIndian\<close>, in the order of the source.\<close>

definition stockPrices :: "(string \<times> real \<times> bool) list" where
  "stockPrices =
     [(''mrf'', 128550.75, True), (''reliance'', 2875.35, True), (''tcs'', 3680.55, True),
      (''hdfc'', 1578.4, True), (''infosys'', 1752.3, True), (''wipro'', 475.2, True),
      (''apple'', 175.34, False), (''microsoft'', 415.1, False), (''amazon'', 178.75, False),
      (''google'', 155.72, False), (''tesla'', 172.63, False), (''meta'', 493.5, False),
      (''facebook'', 493.5, False), (''netflix'', 610.32, False), (''titan'', 3287.6, True),
      (''nestle'', 24350.3, True), (''bajaj'', 1598.45, True), (''icici'', 1124.85, True),
      (''maruti'', 10850.6, True), (''airtel'', 1245.75, True), (''itc'', 435.25, True),
      (''hul'', 2456.8, True), (''sbi'', 764.35, True), (''adani'', 3125.45, True),
      (''kotak'', 1876.9, True)]"

text \<open>
  \<open>query.match(/[A-Z]{2,}/)\<close>: the leftmost run of two or more capital letters, taken
  as long as it goes.
\<close>

fun upper_run :: "string \<Rightarrow> string option" where
  "upper_run [] = None"
| "upper_run (c # cs) =
     (if is_upper c \<and> 2 \<le> length (takeWhile is_upper (c # cs))
      then Some (takeWhile is_upper (c # cs))
      else upper_run cs)"

definition stop_words :: "string list" where
  "stop_words =
     [''stock'', ''price'', ''what'', ''current'', ''trading'', ''about'', ''tell'', ''show'']"

definition indian_markers :: "string list" where
  "indian_markers =
     [''LTD'', ''INDIA'', ''BAJ'', ''TAT'', ''BHEL'', ''ONGC'', ''NTPC'', ''BPCL'', ''HPCL'',
      ''GAIL'']"

definition potentialStockName :: "string \<Rightarrow> string list \<Rightarrow> string option" where
  "potentialStockName query keywords =
     (case upper_run query of
        Some m \<Rightarrow> Some m
      | None \<Rightarrow> find (\<lambda>k. 3 < length k \<and> k \<notin> set stop_words) keywords)"

definition isLikelyIndian :: "string \<Rightarrow> bool" where
  "isLikelyIndian n =
     (2 \<le> length n \<and> list_ex (\<lambda>prefix. js_includes (toUpperCase n) prefix) indian_markers)"

text \<open>
  The price "based on the stock name": the code of the first character times 100 plus
  1000 times the length, modulo 50000, plus 500. The name is never empty where the
  code computes it.
\<close>

definition generatedPrice :: "string \<Rightarrow> nat" where
  "generatedPrice n =
     ((case n of [] \<Rightarrow> 0 | c # _ \<Rightarrow> of_char c) * 100 + length n * 1000) mod 50000 + 500"

text \<open>
  The first block of the function, for a question about a price; \<open>None\<close> when it
  falls through to the paragraphs below it.
\<close>

definition stock_price_answer :: "string \<Rightarrow> web_answer option" where
  "stock_price_answer query =
     (let l = toLowerCase query; keywords = split_ws l in
      if (''stock'' \<in> set keywords \<and> ''price'' \<in> set keywords)
         \<or> ''trading'' \<in> set keywords
         \<or> list_ex (\<lambda>k. k = ''price'') keywords
         \<or> js_includes l ''current price''
      then
        (case find (\<lambda>(key, v). js_includes l key) stockPrices of
           Some (key, price, isIndian) \<Rightarrow> Some (TablePrice (toUpperCase key) price isIndian)
         | None \<Rightarrow>
             if ''price'' \<in> set keywords \<or> js_includes l ''trading''
                \<or> list_ex (\<lambda>word. word = ''current'') keywords
             then
               (case potentialStockName query keywords of
                  None \<Rightarrow> None
                | Some n \<Rightarrow>
                    if n \<noteq> []
                    then Some (GeneratedPrice (toUpperCase n) (real (generatedPrice n))
                                 (isLikelyIndian n))
                    else None)
             else None)
      else None)"

text \<open>
  The whole function. Its body sits in a \<open>try\<close> whose \<open>catch\<close> returns a fixed
  sentence, but no statement of the body can throw, so the promise always resolves with
  one of the six templates.
\<close>

definition searchWebForInfo :: "world \<Rightarrow> session \<Rightarrow> string \<Rightarrow> web_answer \<times> session" where
  "searchWebForInfo w s query =
     (let l = toLowerCase query; keywords = split_ws l in
      case stock_price_answer query of
        Some a \<Rightarrow> (a, s)
      | None \<Rightarrow>
          if ''profitability'' \<in> set keywords \<or> ''metrics'' \<in> set keywords
          then (ProfitabilityNote (js_includes query ''Swiggy''), s)
          else if ''market'' \<in> set keywords \<and> ''share'' \<in> set keywords
          then (let (r, s1) = math_random w s
                in (MarketShareNote (''growing'' \<in> set keywords) (\<lfloor>r * 30\<rfloor> + 20), s1))
          else if ''forecast'' \<in> set keywords \<or> ''outlook'' \<in> set keywords
          then (let (r1, s1) = math_random w s; (r2, s2) = math_random w s1
                in (OutlookNote (0.5 < r1) (\<lfloor>r2 * 15\<rfloor> + 5), s2))
          else (let (r1, s1) = math_random w s; (r2, s2) = math_random w s1
                in (GeneralNote (js_includes l ''stock'') (0.5 < r1) (0.5 < r2), s2)))"

subsection \<open>Stock data for the chat\<close>

definition stock_entry ::
  "world \<Rightarrow> string \<Rightarrow> string \<Rightarrow> real \<Rightarrow> real \<Rightarrow> real \<Rightarrow> real \<Rightarrow> real \<Rightarrow> string \<Rightarrow> json" where
  "stock_entry w sy nm pr ch cp vol cap sec =
     JObj [(''symbol'', JStr sy), (''name'', JStr nm), (''price'', JNum pr),
           (''change'', JNum ch), (''changePercent'', JNum cp), (''volume'', JNum vol),
           (''marketCap'', JNum cap), (''sector'', JStr sec),
           (''lastUpdated'', JStr (now_iso w))]"

definition mockStocks :: "world \<Rightarrow> (string \<times> json) list" where
  "mockStocks w =
     [(''AAPL'', stock_entry w ''AAPL'' ''Apple Inc.'' 175.34 2.15 1.24 78453200
         2751000000000 ''Technology''),
      (''MSFT'', stock_entry w ''MSFT'' ''Microsoft Corporation'' 415.1 3.45 0.84 22145600
         3090000000000 ''Technology''),
      (''AMZN'', stock_entry w ''AMZN'' ''Amazon.com, Inc.'' 178.75 (- 1.25) (- 0.69) 42985300
         1850000000000 ''Consumer Cyclical''),
      (''GOOGL'', stock_entry w ''GOOGL'' ''Alphabet Inc.'' 155.72 1.89 1.23 26834500
         1960000000000 ''Technology''),
      (''TSLA'', stock_entry w ''TSLA'' ''Tesla, Inc.'' 172.63 (- 2.35) (- 1.34) 92817600
         550000000000 ''Automotive''),
      (''META'', stock_entry w ''META'' ''Meta Platforms, Inc.'' 493.5 7.82 1.61 15287400
         1260000000000 ''Communication Services''),
      (''NFLX'', stock_entry w ''NFLX'' ''Netflix, Inc.'' 610.32 12.57 2.1 3642700
         265000000000 ''Entertainment''),
      (''BSE'', stock_entry w ''BSE'' ''BSE Limited'' 2485.6 24.3 0.99 186500
         337000000000 ''Financial Services''),
      (''NSE'', stock_entry w ''NSE'' ''National Stock Exchange'' 3576.25 42.75 1.21 245300
         478000000000 ''Financial Services''),
      (''MRF'', stock_entry w ''MRF'' ''MRF Limited'' 128550.75 876.25 0.69 18456
         545000000000 ''Automotive''),
      (''BAJAJFINSV'', stock_entry w ''BAJAJFINSV'' ''Bajaj Finserv Ltd.'' 1598.45 24.35 1.55
         987650 254000000000 ''Financial Services''),
      (''WIPRO'', stock_entry w ''WIPRO'' ''Wipro Limited'' 475.2 5.65 1.2 2546700
         260000000000 ''Information Technology''),
      (''TITAN'', stock_entry w ''TITAN'' ''Titan Company Limited'' 3287.6 42.8 1.32 876540
         292000000000 ''Consumer Goods''),
      (''NESTLEIND'', stock_entry w ''NESTLEIND'' ''Nestle India Limited'' 24350.3 (- 107.65)
         (- 0.44) 154780 235000000000 ''FMCG'')]"

definition name_includes :: "string \<Rightarrow> string \<times> json \<Rightarrow> bool" where
  "name_includes u kv =
     (case js_prop (snd kv) ''name'' of
        Some (JStr n) \<Rightarrow> js_includes (toUpperCase n) u
      | _ \<Rightarrow> False)"

definition getMockStockData :: "world \<Rightarrow> string \<Rightarrow> json option" where
  "getMockStockData w stockName =
     (let upperStockName = toUpperCase stockName; table = mockStocks w in
      case map_of table upperStockName of
        Some d \<Rightarrow> Some d
      | None \<Rightarrow>
          (case find (name_includes upperStockName) table of
             Some kv \<Rightarrow> Some (snd kv)
           | None \<Rightarrow>
               if upperStockName = ''APPLE'' then map_of table ''AAPL''
               else if upperStockName = ''MICROSOFT'' then map_of table ''MSFT''
               else if upperStockName = ''AMAZON'' then map_of table ''AMZN''
               else if upperStockName = ''GOOGLE'' then map_of table ''GOOGL''
               else if upperStockName = ''TESLA'' then map_of table ''TSLA''
               else if upperStockName = ''FACEBOOK'' \<or> upperStockName = ''FB''
               then map_of table ''META''
               else None))"

text \<open>
  \<open>fetchStockData\<close>: the data of the response when it is truthy, the mock table when
  \<open>getStockInfo\<close> rejects, \<open>null\<close> (here \<open>None\<close>) otherwise.
\<close>

definition fetchStockData :: "world \<Rightarrow> session \<Rightarrow> string \<Rightarrow> json option \<times> session" where
  "fetchStockData w s stockName =
     (case getStockInfo w s (trim stockName) of
        (Inr response, s') \<Rightarrow>
          (case js_prop response ''data'' of
             Some d \<Rightarrow> if truthy response \<and> truthy d then (Some d, s') else (None, s')
           | None \<Rightarrow> (None, s'))
      | (Inl e, s') \<Rightarrow> (getMockStockData w (trim stockName), s'))"

subsection \<open>The submit handler\<close>

text \<open>
  What a message shows. \<open>Text\<close> is a literal string (what the user typed, or a canned
  paragraph); \<open>StockLine d\<close> is the sentence \<open>formatStockResponse\<close> builds from the
  stock data \<open>d\<close>; \<open>Answer a\<close> is the member \<open>answer\<close> of the reply of the chat
  endpoint; \<open>Web a\<close> is the text of \<open>searchWebForInfo\<close>. The \<open>id\<close> of a message, a
  time stamp, is left out.
\<close>

datatype content = Text string | StockLine json | Answer json | Web web_answer

record message =
  content :: content
  isUser :: bool

record chat_view =
  messages :: "message list"
  inputValue :: string
  isLoading :: bool

text \<open>
  \<open>formatStockResponse\<close> calls \<open>stockData.price.toFixed(2)\<close>: a \<open>TypeError\<close> unless
  \<open>price\<close> is a number. Nothing else in it can throw.
\<close>

definition formatStockResponse :: "json \<Rightarrow> js_error + content" where
  "formatStockResponse stockData =
     (case js_prop stockData ''price'' of
        Some (JNum p) \<Rightarrow> Inr (StockLine stockData)
      | _ \<Rightarrow> Inl TypeError)"

text \<open>
  The steps of one submission that the properties below speak about, recorded in order:
  the stock lookup, a throw of \<open>formatStockResponse\<close>, the call of the chat endpoint
  with its outcome, and the call of \<open>searchWebForInfo\<close>.
\<close>

datatype chat_outcome = ChatFailed | ChatNull | ChatNoAnswer | ChatAnswered

datatype step = FetchedStock | FormatThrew | AskedChat chat_outcome | SearchedWeb

text \<open>
  \<open>/^[A-Za-z\s&.]+$/.test(t)\<close>: not empty, and only letters, white space, \<open>&\<close> and
  \<open>.\<close>.
\<close>

definition stock_like :: "string \<Rightarrow> bool" where
  "stock_like t =
     (t \<noteq> [] \<and> list_all (\<lambda>c. is_letter c \<or> is_space c \<or> c = CHR ''&'' \<or> c = CHR ''.'') t)"

text \<open>
  The block \<open>try { response = await api.chat.query(inputValue); content = response.answer
  || await searchWebForInfo(inputValue) } catch { content = await
  searchWebForInfo(inputValue) }\<close>, which the handler has twice. Reading \<open>answer\<close> from a
  \<open>null\<close> reply throws inside the \<open>try\<close>.
\<close>

definition chat_or_web ::
  "world \<Rightarrow> session \<Rightarrow> string \<Rightarrow> content \<times> session \<times> step list" where
  "chat_or_web w s inp =
     (case chat_query w s inp None of
        (Inl e, s1) \<Rightarrow>
          (let (a, s2) = searchWebForInfo w s1 inp
           in (Web a, s2, [AskedChat ChatFailed, SearchedWeb]))
      | (Inr JNull, s1) \<Rightarrow>
          (let (a, s2) = searchWebForInfo w s1 inp
           in (Web a, s2, [AskedChat ChatNull, SearchedWeb]))
      | (Inr response, s1) \<Rightarrow>
          (case js_prop response ''answer'' of
             Some ans \<Rightarrow>
               if truthy ans then (Answer ans, s1, [AskedChat ChatAnswered])
               else (let (a, s2) = searchWebForInfo w s1 inp
                     in (Web a, s2, [AskedChat ChatNoAnswer, SearchedWeb]))
           | None \<Rightarrow>
               (let (a, s2) = searchWebForInfo w s1 inp
                in (Web a, s2, [AskedChat ChatNoAnswer, SearchedWeb]))))"

text \<open>The branches of the outer \<open>try\<close> after the canned answers: what the reply shows, or the error thrown.\<close>

definition respond_unmatched ::
  "world \<Rightarrow> session \<Rightarrow> string \<Rightarrow> (js_error + content) \<times> session \<times> step list" where
  "respond_unmatched w s inp =
     (if stock_like (trim inp) then
        (case fetchStockData w s (trim inp) of
           (Some stockData, s1) \<Rightarrow>
             (case formatStockResponse stockData of
                Inr c \<Rightarrow> (Inr c, s1, [FetchedStock])
              | Inl e \<Rightarrow> (Inl e, s1, [FetchedStock, FormatThrew]))
         | (None, s1) \<Rightarrow>
             (let (c, s2, t) = chat_or_web w s1 inp in (Inr c, s2, FetchedStock # t)))
      else (let (c, s2, t) = chat_or_web w s inp in (Inr c, s2, t)))"

definition respond ::
  "world \<Rightarrow> session \<Rightarrow> string \<Rightarrow> (js_error + content) \<times> session \<times> step list" where
  "respond w s inp =
     (case processSpecificQuery inp of
        Some specificResponse \<Rightarrow>
          if specificResponse \<noteq> [] then (Inr (Text specificResponse), s, [])
          else respond_unmatched w s inp
      | None \<Rightarrow> respond_unmatched w s inp)"

definition add_message :: "chat_view \<Rightarrow> content \<Rightarrow> bool \<Rightarrow> chat_view" where
  "add_message v c u = v\<lparr>messages := messages v @ [\<lparr>content = c, isUser = u\<rparr>]\<rparr>"

text \<open>
  \<open>handleSubmit\<close>: nothing happens on a blank input; otherwise the user's message is
  added, the reply is computed, and an error thrown on the way is answered by
  \<open>searchWebForInfo\<close> in the outer \<open>catch\<close>. (That function cannot throw, so the apology
  of the innermost \<open>catch\<close> is never shown.)
\<close>

definition handleSubmit ::
  "world \<Rightarrow> session \<Rightarrow> chat_view \<Rightarrow> chat_view \<times> session \<times> step list" where
  "handleSubmit w s v =
     (let inp = inputValue v in
      if trim inp = [] then (v, s, [])
      else
        (let v1 = (add_message v (Text inp) True)\<lparr>inputValue := [], isLoading := True\<rparr> in
         case respond w s inp of
           (Inr c, s1, t) \<Rightarrow> ((add_message v1 c False)\<lparr>isLoading := False\<rparr>, s1, t)
         | (Inl e, s1, t) \<Rightarrow>
             (let (a, s2) = searchWebForInfo w s1 inp
              in ((add_message v1 (Web a) False)\<lparr>isLoading := False\<rparr>, s2,
                  t @ [SearchedWeb]))))"

section \<open>The fund browser (Funds.tsx): loading the funds\<close>

record funds_view =
  funds :: "json list"
  error_text :: "string option"
  loading :: bool

definition default_funds :: "json list" where
  "default_funds = [fund_json hdfc_top_100, fund_json nifty_bees]"

text \<open>\<open>v.name === n\<close>, which throws when \<open>v\<close> is \<open>null\<close>.\<close>

fun has_name :: "json \<Rightarrow> string \<Rightarrow> js_error + bool" where
  "has_name JNull n = Inl TypeError"
| "has_name v n = Inr (js_prop v ''name'' = Some (JStr n))"

text \<open>
  The test "are we using fallback data from the server": five entries, the first two
  named as the hardcoded funds. The second name is looked at only when the first
  matches.
\<close>

definition server_fallback :: "json list \<Rightarrow> js_error + bool" where
  "server_fallback xs =
     (if length xs = 5 then
        (case has_name (xs ! 0) ''HDFC Top 100 Fund'' of
           Inl e \<Rightarrow> Inl e
         | Inr False \<Rightarrow> Inr False
         | Inr True \<Rightarrow> has_name (xs ! 1) ''Nifty BeES'')
      else Inr False)"

definition fetchFunds_try :: "json \<Rightarrow> funds_view \<Rightarrow> js_error + funds_view" where
  "fetchFunds_try response v =
     (if truthy response \<and> js_prop response ''status'' = Some (JStr ''success'') then
        (case js_prop response ''data'' of
           Some (JArr xs) \<Rightarrow>
             if length xs = 0
             then Inr (v\<lparr>error_text := Some ''No fund data available. Using default examples.'',
                         funds := default_funds\<rparr>)
             else
               (case server_fallback xs of
                  Inl e \<Rightarrow> Inl e
                | Inr True \<Rightarrow>
                    Inr (v\<lparr>funds := xs,
                           error_text := Some ''Failed to load fund data. Using fallback data.''\<rparr>)
                | Inr False \<Rightarrow> Inr (v\<lparr>funds := xs\<rparr>))
         | _ \<Rightarrow> Inl (Error ''Invalid data format received from API''))
      else Inl (Error ''Invalid data format received from API''))"

definition fetchFunds_catch :: "funds_view \<Rightarrow> funds_view" where
  "fetchFunds_catch v =
     v\<lparr>error_text := Some ''Failed to load fund data. Using fallback data.'',
       funds := default_funds\<rparr>"

definition fetchFunds :: "world \<Rightarrow> session \<Rightarrow> funds_view \<Rightarrow> funds_view \<times> session" where
  "fetchFunds w s v =
     (let v1 = v\<lparr>loading := True, error_text := None\<rparr> in
      case getAllFunds w s of
        (Inl e, s') \<Rightarrow> ((fetchFunds_catch v1)\<lparr>loading := False\<rparr>, s')
      | (Inr response, s') \<Rightarrow>
          (case fetchFunds_try response v1 of
             Inr v2 \<Rightarrow> (v2\<lparr>loading := False\<rparr>, s')
           | Inl e \<Rightarrow> ((fetchFunds_catch v1)\<lparr>loading := False\<rparr>, s')))"

section \<open>The dashboard: \<open>generateDummyHistoricalData\<close>\<close>

text \<open>
  A data point. The date of the source is the text of a calendar day; here it is the
  number of that day, so that \<open>date.setDate(today.getDate() - i)\<close> is \<open>today - i\<close>.
  Time zones are not modelled: the day set in local time and the day \<open>toISOString\<close>
  prints are taken to be the same.
\<close>

record point =
  date :: int
  price :: real

text \<open>
  One round of the loop, for the counter \<open>i\<close>: the state is \<open>currentPrice\<close>, the
  session and the array \<open>data\<close>.
\<close>

definition hist_step ::
  "world \<Rightarrow> real \<Rightarrow> nat \<Rightarrow> real \<times> session \<times> point list \<Rightarrow> real \<times> session \<times> point list" where
  "hist_step w basePrice i st =
     (case st of (currentPrice, s, data) \<Rightarrow>
        (let (r, s') = math_random w s;
             change = (r - 0.48) * (basePrice * 0.03);
             currentPrice' = currentPrice + change
         in (currentPrice', s',
             data @ [\<lparr>date = today w - int i, price = max currentPrice' (basePrice * 0.7)\<rparr>])))"

text \<open>\<open>for (let i = n; i >= 0; i--)\<close>.\<close>

fun hist_loop ::
  "world \<Rightarrow> real \<Rightarrow> nat \<Rightarrow> real \<times> session \<times> point list \<Rightarrow> real \<times> session \<times> point list" where
  "hist_loop w basePrice 0 st = hist_step w basePrice 0 st"
| "hist_loop w basePrice (Suc i) st = hist_loop w basePrice i (hist_step w basePrice (Suc i) st)"

definition generateDummyHistoricalData ::
  "world \<Rightarrow> session \<Rightarrow> real \<Rightarrow> point list \<times> session" where
  "generateDummyHistoricalData w s basePrice =
     (case hist_loop w basePrice 30 (basePrice, s, []) of
        (currentPrice, s', data) \<Rightarrow> (data, s'))"

section \<open>Worlds and views for the examples\<close>

text \<open>The backend is down; \<open>Math.random()\<close> always gives one half.\<close>

definition world_down :: world where
  "world_down =
     \<lparr>base_url = ''http://localhost:8001/api'', http = (\<lambda>k r. None),
      random = (\<lambda>k. 1 / 2), toFixed = (\<lambda>d x. []), number_text = (\<lambda>x. []),
      today = 0, now_iso = []\<rparr>"



text \<open>
  A backend that knows the stock ITC and answers in the shape the dashboard reads
  (\<open>response.data.status\<close>, \<open>response.data.data\<close>); every other request fails.
\<close>

definition itc_payload :: json where
  "itc_payload =
     JObj [(''status'', JStr ''success''),
           (''data'', JObj [(''symbol'', JStr ''ITC''), (''price'', JNum 435.25)])]"

definition world_itc :: world where
  "world_itc =
     world_down\<lparr>http := (\<lambda>k r. if meth r = GET \<and> url r = ''http://localhost:8001/api/stocks/ITC''
                                then Some itc_payload else None)\<rparr>"

definition view0 :: "string \<Rightarrow> chat_view" where
  "view0 inp = \<lparr>messages = [], inputValue = inp, isLoading = False\<rparr>"

definition funds_view0 :: funds_view where
  "funds_view0 = \<lparr>funds = [], error_text = None, loading = True\<rparr>"

section \<open>Vocabulary of the properties\<close>

text \<open>The requests one call of a method of \<open>api\<close> adds to the session.\<close>

definition issued :: "world \<Rightarrow> session \<Rightarrow> api_call \<Rightarrow> request list" where
  "issued w s c = drop (length (requests s)) (requests (snd (api w s c)))"

text \<open>The three requests of \<open>getAllFunds\<close> and \<open>getStockInfo\<close>.\<close>

definition funds_request :: "world \<Rightarrow> request" where
  "funds_request w = \<lparr>meth = GET, url = base_url w @ ''/funds'', body = None\<rparr>"

definition stock_request :: "world \<Rightarrow> string \<Rightarrow> request" where
  "stock_request w symb = \<lparr>meth = GET, url = base_url w @ ''/stocks/'' @ symb, body = None\<rparr>"

definition search_request :: "world \<Rightarrow> string \<Rightarrow> request" where
  "search_request w symb =
     \<lparr>meth = POST, url = base_url w @ ''/financial-data/search'',
      body = Some (JObj [(''query'', JStr symb), (''entity_type'', JStr ''stock'')])\<rparr>"

text \<open>
  Both lookups of \<open>getStockInfo\<close> fail: the direct one is rejected, and the search is
  rejected or comes back without a first hit.
\<close>

definition lookups_fail :: "world \<Rightarrow> session \<Rightarrow> string \<Rightarrow> bool" where
  "lookups_fail w s symb =
     (http w (length (requests s)) (stock_request w symb) = None
      \<and> (case http w (Suc (length (requests s))) (search_request w symb) of
            None \<Rightarrow> True
          | Some d \<Rightarrow> \<not> (truthy d \<and> gt_zero (js_prop d ''length''))))"

text \<open>The contract of \<open>Math.random()\<close>: at least 0 and below 1.\<close>

definition unit_random :: "world \<Rightarrow> bool" where
  "unit_random w = (\<forall>k. 0 \<le> random w k \<and> random w k < 1)"





text \<open>A string with a character that is not white space.\<close>

definition nonblank :: "string \<Rightarrow> bool" where
  "nonblank l = (\<exists>c\<in>set l. \<not> is_space c)"

text \<open>
  The steps of the block that asks the chat endpoint: the endpoint answered, or it
  failed, sent \<open>null\<close> or sent no answer and \<open>searchWebForInfo\<close> was called.
\<close>

definition after_chat :: "step list \<Rightarrow> bool" where
  "after_chat t =
     (t = [AskedChat ChatAnswered]
      \<or> t = [AskedChat ChatFailed, SearchedWeb]
      \<or> t = [AskedChat ChatNull, SearchedWeb]
      \<or> t = [AskedChat ChatNoAnswer, SearchedWeb])"

section \<open>Properties of the REST client\<close>

lemma axios_down:
  "backend_down w \<Longrightarrow> axios w s r = (Inl AxiosError, s\<lparr>requests := requests s @ [r]\<rparr>)"
  by (simp add: axios_def backend_down_def)

lemma mockData_requests: "requests (snd (mockData w s symb)) = requests s"
  by (simp add: mockData_def math_random_def Let_def)

lemma mockData_fst:
  "fst (mockData w s symb) =
     JObj [(''symbol'', JStr (toUpperCase symb)),
           (''name'', JStr (toUpperCase symb)),
           (''price'', JNum (random w (drawn s) * 5000 + 500)),
           (''change'', JStr (toFixed w 2 (random w (Suc (drawn s)) * 100 - 50))),
           (''changePercent'', JStr (toFixed w 2 (random w (Suc (Suc (drawn s))) * 10 - 5))),
           (''volume'',
              JNum (of_int \<lfloor>random w (Suc (Suc (Suc (drawn s)))) * 10000000\<rfloor> + 100000)),
           (''marketCap'',
              JNum (of_int \<lfloor>random w (Suc (Suc (Suc (Suc (drawn s))))) * 10000000000\<rfloor>
                    + 1000000000)),
           (''sector'', JStr ''Unknown'')]"
  by (simp add: mockData_def math_random_def Let_def)

lemmas api_defs =
  chat_query_def news_getRecent_def news_getByEntity_def news_search_def news_refresh_def
  getStockInfo_def search_fallback_def getFundInfo_def getAllFunds_def getAllFunds_try_def
  getFundHoldings_def getETFInfo_def searchFinancialData_def

lemma getStockInfo_mock:
  assumes "lookups_fail w s symb"
  shows "fst (getStockInfo w s symb) =
           Inr (JObj [(''data'',
             fst (mockData w
               (s\<lparr>requests := requests s @ [stock_request w symb, search_request w symb]\<rparr>)
               symb))])"
  using assms
  by (auto simp add: lookups_fail_def getStockInfo_def search_fallback_def axios_def
      stock_request_def search_request_def split_beta split: option.splits)

text \<open>
  Claim C1, as it is stated, at a concrete input: with the backend down,
  \<open>api.getFundInfo("HDFC Top 100 Fund")\<close> rejects with the error of axios. The claim says
  that every method resolves with substitute data.
\<close>

theorem getFundInfo_rejects:
  "fst (api world_down fresh (GetFundInfo ''HDFC Top 100 Fund'')) = Inl AxiosError"
  by (simp add: getFundInfo_def axios_def world_down_def)

text \<open>
  Claim C1, amended. When the backend is down, \<open>getStockInfo\<close> and \<open>getAllFunds\<close>
  resolve (with locally made substitute data), and each of the nine other methods of
  \<open>api\<close> rejects with the error of the failed call.
\<close>

theorem api_substitution:
  assumes "backend_down w"
  shows "(substitutes c \<longrightarrow> (\<exists>v. fst (api w s c) = Inr v))
     \<and> (\<not> substitutes c \<longrightarrow> fst (api w s c) = Inl AxiosError)"
proof (cases c)
  case (GetStockInfo symb)
  have "\<exists>v. fst (getStockInfo w s symb) = Inr v"
    by (simp add: getStockInfo_def search_fallback_def axios_down [OF assms] split_beta)
  with GetStockInfo show ?thesis
    by simp
next
  case GetAllFunds
  have "fst (getAllFunds w s) = Inr fallback_funds"
    by (simp add: getAllFunds_def getAllFunds_try_def axios_down [OF assms])
  with GetAllFunds show ?thesis
    by simp
qed (simp_all add: axios_down [OF assms] chat_query_def news_getRecent_def
      news_getByEntity_def news_search_def news_refresh_def getFundInfo_def
      getFundHoldings_def getETFInfo_def searchFinancialData_def)

theorem api_substitution_witness:
  "backend_down world_down
   \<and> substitutes GetAllFunds \<and> fst (api world_down fresh GetAllFunds) = Inr fallback_funds
   \<and> \<not> substitutes (GetETFInfo ''NIFTYBEES'')
   \<and> fst (api world_down fresh (GetETFInfo ''NIFTYBEES'')) = Inl AxiosError"
proof -
  have d: "backend_down world_down"
    by (simp add: backend_down_def world_down_def)
  have "fst (api world_down fresh GetAllFunds) = Inr fallback_funds"
    by (simp add: getAllFunds_def getAllFunds_try_def axios_down [OF d])
  with d api_substitution [OF d, of "GetETFInfo ''NIFTYBEES''" fresh] show ?thesis
    by simp
qed

text \<open>
  Claim C5. If the request for \<open>/funds\<close> fails, or its response has no truthy data with
  status "success", \<open>getAllFunds\<close> resolves with the fallback object: status "success"
  and, as data, exactly the two funds "HDFC Top 100 Fund" and "Nifty BeES". So whatever
  \<open>getAllFunds\<close> resolves with has status "success", and it always resolves.
\<close>

theorem getAllFunds_fallback:
  "((http w (length (requests s)) (funds_request w) = None
      \<or> (\<exists>d. http w (length (requests s)) (funds_request w) = Some d
              \<and> \<not> (truthy d \<and> js_prop d ''status'' = Some (JStr ''success''))))
     \<longrightarrow> fst (getAllFunds w s) = Inr fallback_funds)
   \<and> (\<exists>v. fst (getAllFunds w s) = Inr v \<and> js_prop v ''status'' = Some (JStr ''success''))
   \<and> js_prop fallback_funds ''status'' = Some (JStr ''success'')
   \<and> js_prop fallback_funds ''data'' = Some (JArr [fund_json hdfc_top_100, fund_json nifty_bees])
   \<and> name hdfc_top_100 = ''HDFC Top 100 Fund'' \<and> name nifty_bees = ''Nifty BeES''"
  by (auto simp add: getAllFunds_def getAllFunds_try_def axios_def funds_request_def
      fallback_funds_def hdfc_top_100_def nifty_bees_def split: option.splits)

theorem getAllFunds_fallback_witness:
  "http world_down (length (requests fresh)) (funds_request world_down) = None
   \<and> fst (getAllFunds world_down fresh) = Inr fallback_funds"
  using getAllFunds_fallback [of world_down fresh] by (simp add: world_down_def)

text \<open>
  Claim C6. For every symbol, when the direct lookup and the search both fail,
  \<open>getStockInfo\<close> resolves with mock data: symbol and name are the input in upper case,
  the price is the random number drawn times 5000 plus 500, hence at least 500 and below
  5500, and the sector is "Unknown".
\<close>

theorem getStockInfo_mock_data:
  assumes "lookups_fail w s symb" and "unit_random w"
  shows "\<exists>m p. fst (getStockInfo w s symb) = Inr (JObj [(''data'', m)])
           \<and> js_prop m ''symbol'' = Some (JStr (toUpperCase symb))
           \<and> js_prop m ''name'' = Some (JStr (toUpperCase symb))
           \<and> js_prop m ''price'' = Some (JNum p)
           \<and> p = random w (drawn s) * 5000 + 500 \<and> 500 \<le> p \<and> p < 5500
           \<and> js_prop m ''sector'' = Some (JStr ''Unknown'')"
proof -
  let ?r = "random w (drawn s)"
  from assms(2) have "0 \<le> ?r" and "?r < 1"
    by (simp_all add: unit_random_def)
  then have "500 \<le> ?r * 5000 + 500" and "?r * 5000 + 500 < 5500"
    by simp_all
  then show ?thesis
    by (simp add: getStockInfo_mock [OF assms(1)] mockData_fst)
qed

theorem getStockInfo_mock_data_witness:
  "lookups_fail world_down fresh ''itc'' \<and> unit_random world_down
   \<and> (\<exists>m p. fst (getStockInfo world_down fresh ''itc'') = Inr (JObj [(''data'', m)])
          \<and> js_prop m ''symbol'' = Some (JStr ''ITC'')
          \<and> js_prop m ''price'' = Some (JNum p) \<and> p = 3000
          \<and> js_prop m ''sector'' = Some (JStr ''Unknown''))"
proof -
  have a: "lookups_fail world_down fresh ''itc''"
    by (simp add: lookups_fail_def world_down_def)
  have b: "unit_random world_down"
    by (simp add: unit_random_def world_down_def)
  have u: "toUpperCase ''itc'' = ''ITC''"
    by code_simp
  have r: "random world_down (drawn fresh) = 1 / 2"
    by (simp add: world_down_def)
  from getStockInfo_mock_data [OF a b] a b show ?thesis
    unfolding u r by auto
qed

text \<open>
  Claim C7. One call of a method of \<open>api\<close> adds at most two requests to the session,
  and no two of them go to the same URL: no request is sent again, whether it failed or
  not.
\<close>

theorem no_retry:
  "requests (snd (api w s c)) = requests s @ issued w s c
   \<and> distinct (map url (issued w s c)) \<and> length (issued w s c) \<le> 2"
  by (cases c)
     (auto simp add: issued_def axios_def api_defs mockData_requests split_beta
       split: prod.splits option.splits sum.splits if_splits)

section \<open>Properties of the fund browser\<close>

lemma includes_iff: "js_includes s t \<longleftrightarrow> (\<exists>pre suf. s = pre @ t @ suf)"
  by (simp add: js_includes_def sublist_def)

lemma matchesFilter_iff: "matchesFilter flt f \<longleftrightarrow> type_selected flt f"
  by (cases flt) (simp_all add: matchesFilter_def)

text \<open>
  Claim C8. For every list of funds, search term and filter setting, \<open>filteredFunds\<close>
  holds exactly the funds whose name contains the search term without regard to case and
  whose type the filter selects (\<open>mf\<close>: "Mutual Fund", \<open>etf\<close>: "ETF", \<open>all\<close>: every
  type), in their original order and with their multiplicity.
\<close>

theorem filteredFunds_exact:
  "filteredFunds fs searchTerm flt =
     filter (\<lambda>f. name_contains searchTerm f \<and> type_selected flt f) fs"
  by (simp add: filteredFunds_def matchesSearch_def name_contains_def includes_iff
      matchesFilter_iff)

theorem filteredFunds_exact_witness:
  "filteredFunds [hdfc_top_100, nifty_bees] ''BEES'' Etf = [nifty_bees]
   \<and> filter (\<lambda>f. name_contains ''BEES'' f \<and> type_selected Etf f) [hdfc_top_100, nifty_bees]
       = [nifty_bees]"
proof -
  have "filteredFunds [hdfc_top_100, nifty_bees] ''BEES'' Etf = [nifty_bees]"
    by code_simp
  then show ?thesis
    using filteredFunds_exact [of "[hdfc_top_100, nifty_bees]" "''BEES''" Etf] by simp
qed

lemma server_fallback_default: "server_fallback default_funds = Inr False"
  by (simp add: server_fallback_def default_funds_def)

text \<open>
  Claim C10. Whenever \<open>getAllFunds\<close> resolves with its own two-fund fallback, the test
  of the component for fallback data (five entries, the first two named "HDFC Top 100
  Fund" and "Nifty BeES") is false: the component shows the two canned funds, and no
  warning is set.
\<close>

theorem fallback_not_detected:
  assumes "fst (getAllFunds w s) = Inr fallback_funds"
  shows "server_fallback [fund_json hdfc_top_100, fund_json nifty_bees] = Inr False
    \<and> funds (fst (fetchFunds w s v)) = [fund_json hdfc_top_100, fund_json nifty_bees]
    \<and> error_text (fst (fetchFunds w s v)) = None
    \<and> \<not> loading (fst (fetchFunds w s v))"
proof -
  obtain s' where g: "getAllFunds w s = (Inr fallback_funds, s')"
    using assms by (cases "getAllFunds w s") simp
  have t: "fetchFunds_try fallback_funds v1 =
             Inr (v1\<lparr>funds := [fund_json hdfc_top_100, fund_json nifty_bees]\<rparr>)" for v1
    by (simp add: fetchFunds_try_def fallback_funds_def server_fallback_def)
  show ?thesis
    by (simp add: fetchFunds_def g t Let_def) (simp add: server_fallback_def)
qed

theorem fallback_not_detected_witness:
  "fst (getAllFunds world_down fresh) = Inr fallback_funds
   \<and> funds (fst (fetchFunds world_down fresh funds_view0))
       = [fund_json hdfc_top_100, fund_json nifty_bees]
   \<and> error_text (fst (fetchFunds world_down fresh funds_view0)) = None"
proof -
  have "fst (getAllFunds world_down fresh) = Inr fallback_funds"
    by (simp add: getAllFunds_def getAllFunds_try_def axios_def world_down_def)
  from this fallback_not_detected [OF this, of funds_view0] show ?thesis
    by simp
qed

section \<open>Properties of the dashboard\<close>

lemma hist_loop_dates:
  "map date (snd (snd (hist_loop w b n (cur, s, data)))) =
     map date data @ map (\<lambda>i. today w - int i) (rev [0..<Suc n])"
  by (induction n arbitrary: cur s data) (simp_all add: hist_step_def math_random_def Let_def)

lemma hist_step_prices:
  assumes "\<forall>p\<in>set data. b * 0.7 \<le> price p"
    and "hist_step w b i (cur, s, data) = (cur', s', data')"
  shows "\<forall>p\<in>set data'. b * 0.7 \<le> price p"
  using assms by (auto simp add: hist_step_def math_random_def Let_def max_def)

lemma hist_loop_prices:
  "\<forall>p\<in>set data. b * 0.7 \<le> price p \<Longrightarrow>
     \<forall>p\<in>set (snd (snd (hist_loop w b n (cur, s, data)))). b * 0.7 \<le> price p"
proof (induction n arbitrary: cur s data)
  case 0
  obtain cur' s' data' where st: "hist_step w b 0 (cur, s, data) = (cur', s', data')"
    by (cases "hist_step w b 0 (cur, s, data)") auto
  with hist_step_prices [OF "0.prems" st] show ?case
    by simp
next
  case (Suc n)
  obtain cur' s' data' where st: "hist_step w b (Suc n) (cur, s, data) = (cur', s', data')"
    by (cases "hist_step w b (Suc n) (cur, s, data)") auto
  from Suc.IH [OF hist_step_prices [OF Suc.prems st]] st show ?case
    by simp
qed

lemma countdown:
  "map (\<lambda>i. t - int i) (rev [0..<Suc n]) = map (\<lambda>k. t - int n + int k) [0..<Suc n]"
  by (rule nth_equalityI) (auto simp add: rev_nth nth_append simp del: upt_Suc)

text \<open>
  Claim C9. For every base price (positive or not), \<open>generateDummyHistoricalData\<close>
  returns 31 points; their dates are the 31 days from thirty days ago to today, in this
  order, so the dates increase and the last one is today; and every price is at least
  0.7 times the base price.
\<close>

theorem history_shape:
  "length (fst (generateDummyHistoricalData w s basePrice)) = 31
   \<and> map date (fst (generateDummyHistoricalData w s basePrice))
       = map (\<lambda>k. today w - 30 + int k) [0..<31]
   \<and> sorted_wrt (<) (map date (fst (generateDummyHistoricalData w s basePrice)))
   \<and> date (last (fst (generateDummyHistoricalData w s basePrice))) = today w
   \<and> (\<forall>p \<in> set (fst (generateDummyHistoricalData w s basePrice)). 0.7 * basePrice \<le> price p)"
proof -
  let ?d = "fst (generateDummyHistoricalData w s basePrice)"
  have d: "?d = snd (snd (hist_loop w basePrice 30 (basePrice, s, [])))"
    by (simp add: generateDummyHistoricalData_def split_beta)
  have dates: "map date ?d = map (\<lambda>k. today w - 30 + int k) [0..<31]"
    unfolding d hist_loop_dates using countdown [of "today w" 30] by simp
  have len: "length ?d = 31"
    using arg_cong [OF dates, of length] by simp
  have srt: "sorted_wrt (<) (map date ?d)"
    unfolding dates by (simp add: sorted_wrt_map del: upt_Suc)
  have "?d \<noteq> []"
    using len by auto
  then have "date (last ?d) = last (map date ?d)"
    by (simp add: last_map)
  also have "\<dots> = today w"
    unfolding dates by (simp add: last_map del: upt_Suc)
  finally have lst: "date (last ?d) = today w" .
  have pr: "\<forall>p \<in> set ?d. 0.7 * basePrice \<le> price p"
    unfolding d using hist_loop_prices [of "[]" basePrice w 30 basePrice s]
    by (simp add: mult.commute)
  from len dates srt lst pr show ?thesis
    by blast
qed

theorem history_shape_witness:
  "length (fst (generateDummyHistoricalData world_down fresh 1000)) = 31
   \<and> date (last (fst (generateDummyHistoricalData world_down fresh 1000))) = 0
   \<and> list_all (\<lambda>p. 700 \<le> price p) (fst (generateDummyHistoricalData world_down fresh 1000))"
  using history_shape [of world_down fresh 1000] by (simp add: world_down_def list_all_iff)

section \<open>Properties of the chat assistant\<close>

lemma processSpecificQuery_find:
  "processSpecificQuery q = map_option snd (find (\<lambda>r. fst r (toLowerCase q)) patterns)"
  by (simp add: processSpecificQuery_def patterns_def Let_def)

lemma length_patterns: "length patterns = 29"
  by (simp add: patterns_def)

text \<open>
  Claim C2. \<open>processSpecificQuery\<close> returns the paragraph of the first pattern of its
  table that matches the lower-cased query. So it returns a paragraph exactly when one
  of the hardcoded patterns matches, and \<open>null\<close> exactly when none does; every
  paragraph it returns is one of the at most 29 canned strings; and the result depends
  on the text of the query only, and there only on its lower-cased form.
\<close>

theorem processSpecificQuery_patterns:
  "processSpecificQuery q = map_option snd (find (\<lambda>r. fst r (toLowerCase q)) patterns)
   \<and> ((\<exists>a. processSpecificQuery q = Some a) \<longleftrightarrow> (\<exists>r\<in>set patterns. fst r (toLowerCase q)))
   \<and> (processSpecificQuery q = None \<longleftrightarrow> \<not> (\<exists>r\<in>set patterns. fst r (toLowerCase q)))
   \<and> (\<forall>a. processSpecificQuery q = Some a \<longrightarrow> a \<in> canned)
   \<and> finite canned \<and> card canned \<le> 29
   \<and> (\<forall>q'. toLowerCase q' = toLowerCase q \<longrightarrow> processSpecificQuery q' = processSpecificQuery q)"
proof -
  let ?P = "\<lambda>r :: (string \<Rightarrow> bool) \<times> string. fst r (toLowerCase q)"
  have none: "processSpecificQuery q = None \<longleftrightarrow> \<not> (\<exists>r\<in>set patterns. ?P r)"
    by (auto simp add: processSpecificQuery_find find_None_iff)
  then have some: "(\<exists>a. processSpecificQuery q = Some a) \<longleftrightarrow> (\<exists>r\<in>set patterns. ?P r)"
    by (cases "processSpecificQuery q") simp_all
  have mem: "\<forall>a. processSpecificQuery q = Some a \<longrightarrow> a \<in> canned"
  proof (intro allI impI)
    fix a
    assume "processSpecificQuery q = Some a"
    then obtain r where f: "find ?P patterns = Some r" and a: "a = snd r"
      by (auto simp add: processSpecificQuery_find)
    from f have "r \<in> set patterns"
      by (auto simp add: find_Some_iff)
    with a show "a \<in> canned"
      by (simp add: canned_def)
  qed
  have "card canned \<le> length patterns"
    unfolding canned_def by (rule order_trans [OF card_image_le card_length]) simp
  then have crd: "card canned \<le> 29"
    by (simp add: length_patterns)
  have fin: "finite canned"
    by (simp add: canned_def)
  have ci: "\<forall>q'. toLowerCase q' = toLowerCase q \<longrightarrow> processSpecificQuery q' = processSpecificQuery q"
    by (simp add: processSpecificQuery_find)
  from processSpecificQuery_find none some mem crd fin ci show ?thesis
    by blast
qed

theorem processSpecificQuery_patterns_witness:
  "processSpecificQuery ''What is the CASA ratio?'' = Some ans_casa_ratio
   \<and> ans_casa_ratio \<in> canned
   \<and> processSpecificQuery ''what is the casa RATIO?'' = Some ans_casa_ratio
   \<and> processSpecificQuery ''swiggy'' = None
   \<and> \<not> (\<exists>r\<in>set patterns. fst r (toLowerCase ''swiggy''))"
proof -
  have a: "processSpecificQuery ''What is the CASA ratio?'' = Some ans_casa_ratio"
    by code_simp
  have b: "processSpecificQuery ''swiggy'' = None"
    by code_simp
  have c: "toLowerCase ''what is the casa RATIO?'' = toLowerCase ''What is the CASA ratio?''"
    by code_simp
  from processSpecificQuery_patterns [of "''What is the CASA ratio?''"] a c
  have "ans_casa_ratio \<in> canned"
    and "processSpecificQuery ''what is the casa RATIO?'' = Some ans_casa_ratio"
    by auto
  moreover from processSpecificQuery_patterns [of "''swiggy''"] b
  have "\<not> (\<exists>r\<in>set patterns. fst r (toLowerCase ''swiggy''))"
    by blast
  ultimately show ?thesis using a b by blast
qed
















lemmas ans_defs =
  ans_asset_quality_def ans_casa_ratio_def ans_merger_synergies_def ans_market_cap_def
  ans_volume_def ans_recent_news_def ans_apple_def ans_bse_def ans_swiggy_quarter_def
  ans_jyothy_labs_def ans_infosys_def ans_market_today_def ans_hdfc_def
  ans_tata_motors_def ans_reliance_def ans_zomato_high_def ans_tcs_price_def
  ans_iphone_sales_def ans_apple_performance_def ans_ev_division_def
  ans_domestic_share_def ans_debt_reduction_def ans_o2c_def ans_new_energy_def
  ans_digital_business_def ans_profitability_def ans_instamart_def ans_ipo_plans_def
  ans_mrf_def

lemmas asks_defs =
  asks_asset_quality_def asks_casa_ratio_def asks_merger_synergies_def
  asks_market_cap_def asks_volume_def asks_recent_news_def asks_apple_def asks_bse_def
  asks_swiggy_quarter_def asks_jyothy_labs_def asks_infosys_def asks_market_today_def
  asks_hdfc_def asks_tata_motors_def asks_reliance_def asks_zomato_high_def
  asks_tcs_price_def asks_iphone_sales_def asks_apple_performance_def
  asks_ev_division_def asks_domestic_share_def asks_debt_reduction_def asks_o2c_def
  asks_new_energy_def asks_digital_business_def asks_profitability_def
  asks_instamart_def asks_ipo_plans_def asks_mrf_def

lemma canned_nonempty: "a \<in> canned \<Longrightarrow> a \<noteq> []"
  by (auto simp add: canned_def patterns_def ans_defs)

lemma includes_nonblank: "js_includes l (c # t) \<Longrightarrow> \<not> is_space c \<Longrightarrow> nonblank l"
  by (auto simp add: js_includes_def sublist_def nonblank_def)

lemma pattern_nonblank:
  assumes "r \<in> set patterns" and "fst r l"
  shows "nonblank l"
  using assms
  apply (simp only: patterns_def list.set insert_iff empty_iff)
  apply (elim disjE)
  apply (simp_all only: fst_conv)
  apply (auto simp add: asks_defs is_space_def nonblank_def dest: includes_nonblank)
  done

lemma lower_char_space: "is_space (lower_char c) = is_space c"
  by (auto simp add: is_space_def lower_char_def Let_def)

lemma nonblank_toLowerCase: "nonblank (toLowerCase s) = nonblank s"
  by (simp add: nonblank_def toLowerCase_def lower_char_space)

lemma trim_nonblank:
  assumes "nonblank s"
  shows "trim s \<noteq> []"
proof -
  let ?d = "dropWhile is_space s"
  from assms have d: "?d \<noteq> []"
    by (auto simp add: nonblank_def dropWhile_eq_Nil_conv)
  then have "\<not> is_space (hd ?d)"
    by (simp add: hd_dropWhile)
  moreover from d have "hd ?d \<in> set (rev ?d)"
    by simp
  ultimately have "dropWhile is_space (rev ?d) \<noteq> []"
    by (auto simp add: dropWhile_eq_Nil_conv)
  then show ?thesis
    by (simp add: trim_def)
qed

lemma matched_nonblank:
  assumes "processSpecificQuery q = Some a"
  shows "trim q \<noteq> []" and "a \<noteq> []"
proof -
  from assms obtain r where "find (\<lambda>r. fst r (toLowerCase q)) patterns = Some r" and a: "a = snd r"
    by (auto simp add: processSpecificQuery_find)
  then have r: "r \<in> set patterns" and "fst r (toLowerCase q)"
    by (auto simp add: find_Some_iff)
  then have "nonblank (toLowerCase q)"
    by (rule pattern_nonblank)
  then show "trim q \<noteq> []"
    by (simp add: nonblank_toLowerCase trim_nonblank)
  from r a have "a \<in> canned"
    by (simp add: canned_def)
  then show "a \<noteq> []"
    by (rule canned_nonempty)
qed

lemma chat_or_web_steps: "chat_or_web w s inp = (c, s', t) \<Longrightarrow> after_chat t"
  by (auto simp add: chat_or_web_def after_chat_def split_beta
      split: prod.splits sum.splits json.splits option.splits if_splits)

lemma respond_unmatched_steps:
  assumes "respond_unmatched w s inp = (r, s', t)"
  shows "(r = Inl TypeError \<and> t = [FetchedStock, FormatThrew])
         \<or> ((\<exists>c. r = Inr c) \<and> (t = [FetchedStock] \<or> after_chat t \<or> (\<exists>t'. t = FetchedStock # t' \<and> after_chat t')))"
proof (cases "stock_like (trim inp)")
  case False
  obtain c s2 t2 where cw: "chat_or_web w s inp = (c, s2, t2)"
    by (cases "chat_or_web w s inp") auto
  with assms False chat_or_web_steps [OF cw] show ?thesis
    by (auto simp add: respond_unmatched_def)
next
  case True
  obtain d s1 where f: "fetchStockData w s (trim inp) = (d, s1)"
    by (cases "fetchStockData w s (trim inp)") auto
  show ?thesis
  proof (cases d)
    case None
    obtain c s2 t2 where cw: "chat_or_web w s1 inp = (c, s2, t2)"
      by (cases "chat_or_web w s1 inp") auto
    with assms True f None chat_or_web_steps [OF cw] show ?thesis
      by (auto simp add: respond_unmatched_def)
  next
    case (Some stockData)
    with assms True f show ?thesis
      by (auto simp add: respond_unmatched_def formatStockResponse_def
          split: sum.splits option.splits json.splits)
  qed
qed


lemma handleSubmit_canned:
  assumes "processSpecificQuery (inputValue v) = Some a"
  shows "handleSubmit w s v =
           ((add_message ((add_message v (Text (inputValue v)) True)\<lparr>inputValue := [], isLoading := True\<rparr>)
               (Text a) False)\<lparr>isLoading := False\<rparr>, s, [])"
  using assms matched_nonblank [OF assms]
  by (simp add: handleSubmit_def respond_def Let_def)

lemma handleSubmit_unmatched:
  assumes "processSpecificQuery (inputValue v) = None" and "handleSubmit w s v = (v', s', t)"
  shows "t = [] \<or> t = [FetchedStock] \<or> t = [FetchedStock, FormatThrew, SearchedWeb]
         \<or> after_chat t \<or> (\<exists>t'. t = FetchedStock # t' \<and> after_chat t')"
proof (cases "trim (inputValue v) = []")
  case True
  with assms(2) show ?thesis
    by (simp add: handleSubmit_def Let_def)
next
  case False
  obtain r s1 t1 where ru: "respond_unmatched w s (inputValue v) = (r, s1, t1)"
    by (cases "respond_unmatched w s (inputValue v)") auto
  from respond_unmatched_steps [OF ru] assms False ru show ?thesis
    by (auto simp add: handleSubmit_def respond_def Let_def split_beta)
qed

text \<open>
  Claim C4, amended. Whenever \<open>processSpecificQuery\<close> returns a canned answer for the
  input, the handler adds the user's message and that answer and consults nothing else:
  no step is recorded and the session is unchanged (no request, no random number).
  \<open>searchWebForInfo\<close> is called only when no canned pattern matched, and then either
  right after the chat endpoint failed or gave no answer, or, without any call of the
  chat endpoint, right after \<open>formatStockResponse\<close> threw on the stock data fetched
  (the outer \<open>catch\<close>).
\<close>

theorem handleSubmit_sources:
  assumes "handleSubmit w s v = (v', s', t)"
  shows "(\<forall>a. processSpecificQuery (inputValue v) = Some a \<longrightarrow>
            messages v' = messages v @ [\<lparr>content = Text (inputValue v), isUser = True\<rparr>,
                                        \<lparr>content = Text a, isUser = False\<rparr>]
            \<and> t = [] \<and> s' = s)
         \<and> (SearchedWeb \<in> set t \<longrightarrow>
              processSpecificQuery (inputValue v) = None
              \<and> (t = [FetchedStock, FormatThrew, SearchedWeb]
                 \<or> (\<exists>pre out. t = pre @ [AskedChat out, SearchedWeb] \<and> out \<noteq> ChatAnswered
                      \<and> (pre = [] \<or> pre = [FetchedStock]))))"
proof (cases "processSpecificQuery (inputValue v)")
  case (Some a)
  from handleSubmit_canned [OF Some, of w s] assms Some show ?thesis
    by (auto simp add: add_message_def)
next
  case None
  from handleSubmit_unmatched [OF None assms] None show ?thesis
    by (auto simp add: after_chat_def)
qed

lemma itc_none: "processSpecificQuery ''ITC'' = None"
  by code_simp

lemma itc_keywords: "toLowerCase ''ITC'' = ''itc''" "split_ws ''itc'' = [''itc'']"
  by code_simp+

lemma itc_web: "stock_price_answer ''ITC'' = None"
proof -
  have c: "js_includes ''itc'' ''current price'' = False"
    by code_simp
  show ?thesis
    unfolding stock_price_answer_def itc_keywords Let_def by (simp add: c)
qed

text \<open>
  Claim C4, as it is stated, at a concrete input: the backend answers the lookup of ITC
  in the shape the dashboard reads, the user types "ITC". No canned pattern matches,
  \<open>formatStockResponse\<close> throws on the payload, and \<open>searchWebForInfo\<close> is called
  although the chat endpoint was never asked: the only request of the session is the
  stock lookup. The claim says \<open>searchWebForInfo\<close> is called only when the chat
  endpoint failed or returned an empty answer.
\<close>

theorem web_search_without_chat:
  "processSpecificQuery ''ITC'' = None
   \<and> snd (snd (handleSubmit world_itc fresh (view0 ''ITC'')))
       = [FetchedStock, FormatThrew, SearchedWeb]
   \<and> map url (requests (fst (snd (handleSubmit world_itc fresh (view0 ''ITC'')))))
       = [''http://localhost:8001/api/stocks/ITC'']"
proof -
  have t: "trim ''ITC'' = ''ITC''"
    by code_simp
  have sl: "stock_like ''ITC''"
    by code_simp
  have g: "getStockInfo world_itc fresh ''ITC'' =
      (Inr (JObj [(''data'', itc_payload)]),
       fresh\<lparr>requests := [\<lparr>meth = GET, url = ''http://localhost:8001/api/stocks/ITC'', body = None\<rparr>]\<rparr>)"
    by (simp add: getStockInfo_def axios_def world_itc_def world_down_def fresh_def)
  have f: "fetchStockData world_itc fresh ''ITC'' =
      (Some itc_payload,
       fresh\<lparr>requests := [\<lparr>meth = GET, url = ''http://localhost:8001/api/stocks/ITC'', body = None\<rparr>]\<rparr>)"
    by (simp add: fetchStockData_def t g) (simp add: itc_payload_def)
  have fm: "formatStockResponse itc_payload = Inl TypeError"
    by (simp add: formatStockResponse_def itc_payload_def)
  have r: "respond world_itc fresh ''ITC'' =
      (Inl TypeError,
       fresh\<lparr>requests := [\<lparr>meth = GET, url = ''http://localhost:8001/api/stocks/ITC'', body = None\<rparr>]\<rparr>,
       [FetchedStock, FormatThrew])"
    by (simp add: respond_def itc_none respond_unmatched_def t sl f fm)
  show ?thesis
    by (simp add: itc_none handleSubmit_def view0_def t r Let_def split_beta searchWebForInfo_def
        itc_web itc_keywords math_random_def)
qed


theorem handleSubmit_sources_witness:
  "processSpecificQuery ''What is the CASA ratio?'' = Some ans_casa_ratio
   \<and> messages (fst (handleSubmit world_down fresh (view0 ''What is the CASA ratio?'')))
       = [\<lparr>content = Text ''What is the CASA ratio?'', isUser = True\<rparr>,
          \<lparr>content = Text ans_casa_ratio, isUser = False\<rparr>]
   \<and> snd (handleSubmit world_down fresh (view0 ''What is the CASA ratio?'')) = (fresh, [])
   \<and> snd (snd (handleSubmit world_down fresh (view0 ''2+2?'')))
       = [AskedChat ChatFailed, SearchedWeb]
   \<and> processSpecificQuery ''2+2?'' = None"
proof -
  let ?h = "handleSubmit world_down fresh (view0 ''What is the CASA ratio?'')"
  let ?g = "handleSubmit world_down fresh (view0 ''2+2?'')"
  have a: "processSpecificQuery (inputValue (view0 ''What is the CASA ratio?'')) = Some ans_casa_ratio"
    unfolding view0_def by simp code_simp
  have h: "?h = (fst ?h, fst (snd ?h), snd (snd ?h))"
    by simp
  from handleSubmit_sources [OF h] a
  have 1: "messages (fst ?h)
             = [\<lparr>content = Text ''What is the CASA ratio?'', isUser = True\<rparr>,
                \<lparr>content = Text ans_casa_ratio, isUser = False\<rparr>]"
    and 2: "snd ?h = (fresh, [])"
    by (simp_all add: view0_def prod_eq_iff)
  have n: "processSpecificQuery ''2+2?'' = None"
    by code_simp
  have t: "trim ''2+2?'' = ''2+2?''" and sl: "\<not> stock_like ''2+2?''"
    by code_simp+
  have tr: "snd (snd ?g) = [AskedChat ChatFailed, SearchedWeb]"
    by (simp add: handleSubmit_def view0_def Let_def respond_def n respond_unmatched_def t sl
        chat_or_web_def chat_query_def axios_def world_down_def split_beta)
  have g: "?g = (fst ?g, fst (snd ?g), snd (snd ?g))"
    by simp
  from handleSubmit_sources [OF g] tr
  have "processSpecificQuery (inputValue (view0 ''2+2?'')) = None"
    by simp
  then have 3: "processSpecificQuery ''2+2?'' = None"
    by (simp add: view0_def)
  from a 1 2 tr 3 show ?thesis
    by (simp add: view0_def)
qed

end
